theory Spec2Isabelle
  imports Main "HOL-Library.Word" "HOL-Library.Stream"
begin

text \<open>
  The Kafka consumer of the packages \<open>kafkareader\<close> and \<open>kafkalib\<close>: the partition
  lookup (\<open>LookupPartitions\<close>), the supervisor's constructor (\<open>CreateReader\<close>) and the
  partition worker (\<open>NewPartitionReader\<close>, \<open>createReader\<close>, \<open>recover\<close>, \<open>Start\<close>).
  The functions of the source pass a world along: the replies of the brokers still to
  come and the events done so far.
\<close>

section \<open>Machine types\<close>

text \<open>
  Go's \<open>int\<close> (on the 64-bit platforms the module targets), \<open>int64\<close> and
  \<open>time.Duration\<close> (an \<open>int64\<close> count of nanoseconds) are 64-bit two's complement
  integers: arithmetic wraps around and the comparisons \<open><\<close> and \<open><=\<close> of the source
  are signed, written here on \<open>sint\<close>.
\<close>

type_synonym int64 = "64 word"
type_synonym go_int = "64 word"
type_synonym Duration = "64 word"

definition Millisecond :: Duration where
  "Millisecond = 1000000"

definition Second :: Duration where
  "Second = 1000 * Millisecond"

section \<open>The broker client\<close>

text \<open>
  Modelled from the spec: the types of the broker client (package \<open>kafka\<close>,
  github.com/segmentio/kafka-go), a dependency that is not among the sources. Section 6
  of the specification gives the contract the consumer depends on: listing the partitions
  of a topic at one address within a timeout, fetching the next message of a connection or
  failing, seeking a connection to the newest offset, and closing a connection. The types
  below keep the fields the consumer reads or writes.
\<close>

record Message =
  Offset :: int64
  Key :: string
  Value :: string

record Partition =
  ID :: go_int
  Leader :: string

record ReaderConfig =
  rc_Brokers :: "string list"
  rc_Topic :: string
  rc_Partition :: go_int
  rc_MinBytes :: go_int
  rc_MaxBytes :: go_int
  rc_ReadBackoffMin :: Duration

text \<open>
  Modelled from the spec: the argument of \<open>SetOffset\<close>. \<open>LastOffset\<close> is the library's
  name for the newest offset of a partition, \<open>FirstOffset\<close> for the oldest one.
\<close>

datatype seek = LastOffset | FirstOffset | AbsoluteOffset int64

type_synonym kafka_error = string

text \<open>
  Everything the consumer does to the outside is recorded, in order, as an event: the calls
  into the broker client, the calls of the user's handler, the sleeps and the log lines.
\<close>

datatype event =
    Lookup Duration string string string
  | NewReader ReaderConfig
  | SetOffset seek
  | CloseReader ReaderConfig
  | HandleEvent go_int Message
  | Sleep Duration
  | LogError string

text \<open>
  The world outside the consumer: the reader configurations the broker client accepts,
  the replies it will give to the successive partition lookups, seeks and fetches, and
  the events so far. What the client accepts and what it replies are parameters of every
  function below; any behaviour of the client and the brokers is some choice of them.
\<close>

record world =
  accepts :: "ReaderConfig \<Rightarrow> bool"
  lookup_replies :: "(kafka_error + Partition list) stream"
  seek_replies :: "kafka_error option stream"
  fetch_replies :: "(kafka_error + Message) stream"
  events :: "event list"

definition emit :: "event \<Rightarrow> world \<Rightarrow> world" where
  "emit e w = w\<lparr>events := events w @ [e]\<rparr>"

text \<open>
  A call returns or panics. A panic in \<open>CreateReader\<close> reaches its caller; one in the
  goroutine that runs \<open>Start\<close> ends the program. No function of the consumer recovers
  from a panic.
\<close>

datatype 'a outcome = Returns (returned: 'a) | Panics

text \<open>
  The calls into the broker client. Each records its event and takes its reply from the
  world: \<open>kafka.LookupPartitions(ctx, network, addr, topic)\<close> with the timeout of \<open>ctx\<close>,
  \<open>kafka.NewReader(config)\<close>, and \<open>SetOffset(offset)\<close>, \<open>FetchMessage(ctx)\<close> and
  \<open>Close()\<close> of a \<open>kafka.Reader\<close>. \<open>kafka.NewReader\<close> has no error result: it
  validates the configuration and panics on one it rejects; on one it accepts it opens a
  connection, named here by its configuration.
\<close>

definition kafka_LookupPartitions ::
  "Duration \<Rightarrow> string \<Rightarrow> string \<Rightarrow> string \<Rightarrow> world \<Rightarrow> (kafka_error + Partition list) \<times> world" where
  "kafka_LookupPartitions timeout network addr topic w =
     (shd (lookup_replies w),
      emit (Lookup timeout network addr topic) (w\<lparr>lookup_replies := stl (lookup_replies w)\<rparr>))"

definition kafka_NewReader :: "ReaderConfig \<Rightarrow> world \<Rightarrow> ReaderConfig outcome \<times> world" where
  "kafka_NewReader rc w =
     (if accepts w rc then (Returns rc, emit (NewReader rc) w) else (Panics, w))"

definition kafka_SetOffset :: "seek \<Rightarrow> world \<Rightarrow> kafka_error option \<times> world" where
  "kafka_SetOffset target w =
     (shd (seek_replies w), emit (SetOffset target) (w\<lparr>seek_replies := stl (seek_replies w)\<rparr>))"

definition kafka_FetchMessage :: "world \<Rightarrow> (kafka_error + Message) \<times> world" where
  "kafka_FetchMessage w = (shd (fetch_replies w), w\<lparr>fetch_replies := stl (fetch_replies w)\<rparr>)"

definition kafka_Close :: "ReaderConfig \<Rightarrow> world \<Rightarrow> world" where
  "kafka_Close rc w = emit (CloseReader rc) w"

text \<open>\<open>time.Sleep\<close> and the logger's \<open>Error\<close>, as events.\<close>

definition time_Sleep :: "Duration \<Rightarrow> world \<Rightarrow> world" where
  "time_Sleep d w = emit (Sleep d) w"

definition log_Error :: "string \<Rightarrow> world \<Rightarrow> world" where
  "log_Error s w = emit (LogError s) w"

section \<open>Errors\<close>

text \<open>
  The sentinel errors of the packages \<open>kafkareader\<close> and \<open>kafkalib\<close>, each a distinct
  value of \<open>errors.New\<close>, and the errors of the broker client, which are none of them.
\<close>

datatype error =
    ErrNoBrokers
  | ErrNoTopic
  | ErrNoHandler
  | ErrNonePartionFound
  | KafkaError kafka_error

fun error_text :: "error \<Rightarrow> string" where
  "error_text ErrNoBrokers = ''no brokers''"
| "error_text ErrNoTopic = ''no topic''"
| "error_text ErrNoHandler = ''no handler''"
| "error_text ErrNonePartionFound = ''none partition found''"
| "error_text (KafkaError s) = s"

section \<open>Configuration (config.go)\<close>

definition MINBYTES :: go_int where
  "MINBYTES = 512"

definition MAXBYTES :: go_int where
  "MAXBYTES = 1024 * 1024 * 4"

definition READBACKOFFMIN :: Duration where
  "READBACKOFFMIN = Millisecond * 100"

text \<open>The handler is an opaque callback; calling it is the event \<open>HandleEvent\<close>.\<close>

datatype handler = Callback nat

record Config =
  Name :: string
  Brokers :: "string list"
  Topic :: string
  MinBytes :: go_int
  MaxBytes :: go_int
  ReadBackoffMin :: Duration
  Handler :: "handler option"

section \<open>The supervisor and the partition worker: state\<close>

text \<open>
  A worker holds a pointer to its supervisor and reads only fields of it that are never
  written after construction; \<open>ReaderFields\<close> are those fields, and \<open>Reader\<close> extends
  them with the worker list and the two flags.
\<close>

record ReaderFields =
  handleEvent :: "handler option"
  topic :: string
  brokers :: "string list"
  minBytes :: go_int
  maxBytes :: go_int
  partitions :: "Partition list"
  readBackoffMin :: Duration

record PartitionReader =
  parent :: ReaderFields
  reader :: "ReaderConfig option"
  partition :: Partition

record Reader = ReaderFields +
  readers :: "PartitionReader list"
  status :: bool
  closing :: bool

section \<open>The partition worker\<close>

definition readerConfig :: "PartitionReader \<Rightarrow> ReaderConfig" where
  "readerConfig pr =
     \<lparr>rc_Brokers = brokers (parent pr),
      rc_Topic = topic (parent pr),
      rc_Partition = ID (partition pr),
      rc_MinBytes = minBytes (parent pr),
      rc_MaxBytes = maxBytes (parent pr),
      rc_ReadBackoffMin = readBackoffMin (parent pr)\<rparr>"

definition createReader ::
  "PartitionReader \<Rightarrow> world \<Rightarrow> (kafka_error option \<times> PartitionReader) outcome \<times> world" where
  "createReader pr w =
     (case kafka_NewReader (readerConfig pr) w of
        (Panics, w1) \<Rightarrow> (Panics, w1)
      | (Returns rd, w1) \<Rightarrow>
          (let pr1 = pr\<lparr>reader := Some rd\<rparr>;
               (err, w2) = kafka_SetOffset LastOffset w1
           in (Returns (err, pr1), w2)))"

definition NewPartitionReader ::
  "ReaderFields \<Rightarrow> Partition \<Rightarrow> world \<Rightarrow> (PartitionReader \<times> kafka_error option) outcome \<times> world" where
  "NewPartitionReader r p w =
     (let pr = \<lparr>parent = r, reader = None, partition = p\<rparr> in
      case createReader pr w of
        (Panics, w1) \<Rightarrow> (Panics, w1)
      | (Returns (err, pr1), w1) \<Rightarrow> (Returns (pr1, err), w1))"

text \<open>
  The loop of \<open>recover\<close> ends only when \<open>createReader\<close> succeeds or panics; \<open>None\<close> is
  the run that never leaves it.
\<close>

partial_function (option) recover_loop ::
  "PartitionReader \<Rightarrow> world \<Rightarrow> (PartitionReader outcome \<times> world) option" where
  "recover_loop pr w =
     (case createReader pr w of
        (Panics, w1) \<Rightarrow> Some (Panics, w1)
      | (Returns (Some err, pr1), w1) \<Rightarrow>
          recover_loop pr1 (time_Sleep (Second * 3) (log_Error ''recover failed'' w1))
      | (Returns (None, pr1), w1) \<Rightarrow> Some (Returns pr1, w1))"

definition recover :: "PartitionReader \<Rightarrow> world \<Rightarrow> (PartitionReader outcome \<times> world) option" where
  "recover pr w =
     recover_loop pr (case reader pr of None \<Rightarrow> w | Some rc \<Rightarrow> kafka_Close rc w)"

text \<open>
  One turn of the loop of \<open>Start\<close>, on the worker, the local \<open>maxOffset\<close> and the world.
  The offsets are compared as signed 64-bit integers. The reply to the fetch is the next
  of the world's fetch replies; the worker's connection is never nil here, since
  \<open>createReader\<close> sets it before \<open>Start\<close> can run and nothing resets it
  (\<open>NewPartitionReader_reader\<close>, \<open>Start_body_reader\<close> below).
\<close>

definition Start_body ::
  "PartitionReader \<Rightarrow> int64 \<Rightarrow> world \<Rightarrow> ((PartitionReader \<times> int64) outcome \<times> world) option" where
  "Start_body pr maxOffset w =
     (case kafka_FetchMessage w of
        (Inr msg, w1) \<Rightarrow>
          if sint (Offset msg) \<le> sint maxOffset then Some (Returns (pr, maxOffset), w1)
          else Some (Returns (pr, Offset msg), emit (HandleEvent (ID (partition pr)) msg) w1)
      | (Inl err, w1) \<Rightarrow>
          (case recover pr (log_Error ''reader broken, start to recover...''
                              (time_Sleep (Millisecond * 200) w1)) of
             None \<Rightarrow> None
           | Some (Panics, w2) \<Rightarrow> Some (Panics, w2)
           | Some (Returns pr1, w2) \<Rightarrow> Some (Returns (pr1, maxOffset), w2)))"

text \<open>
  \<open>Start\<close> never returns. \<open>Start_loop n\<close> is the state after \<open>n\<close> turns of its loop,
  \<open>Panics\<close> when one of these turns panics, and \<open>None\<close> when one of them never ends.
\<close>

fun Start_loop ::
  "nat \<Rightarrow> PartitionReader \<Rightarrow> int64 \<Rightarrow> world \<Rightarrow> ((PartitionReader \<times> int64) outcome \<times> world) option" where
  "Start_loop 0 pr maxOffset w = Some (Returns (pr, maxOffset), w)"
| "Start_loop (Suc n) pr maxOffset w =
     (case Start_body pr maxOffset w of
        None \<Rightarrow> None
      | Some (Panics, w1) \<Rightarrow> Some (Panics, w1)
      | Some (Returns (pr1, maxOffset1), w1) \<Rightarrow> Start_loop n pr1 maxOffset1 w1)"

text \<open>The messages handed to the handler, in order.\<close>

fun handled :: "event list \<Rightarrow> Message list" where
  "handled [] = []"
| "handled (HandleEvent p m # es) = m # handled es"
| "handled (e # es) = handled es"

definition Start ::
  "nat \<Rightarrow> PartitionReader \<Rightarrow> world \<Rightarrow> ((PartitionReader \<times> int64) outcome \<times> world) option" where
  "Start n pr w = Start_loop n pr 0 w"

section \<open>Partition lookup (package kafkalib)\<close>

definition lookupPartitions :: "string \<Rightarrow> string \<Rightarrow> world \<Rightarrow> (kafka_error + Partition list) \<times> world" where
  "lookupPartitions addr tp w = kafka_LookupPartitions (3 * Second) ''tcp'' addr tp w"

fun LookupPartitions :: "string list \<Rightarrow> string \<Rightarrow> world \<Rightarrow> (error + Partition list) \<times> world" where
  "LookupPartitions [] tp w = (Inl ErrNonePartionFound, w)"
| "LookupPartitions (addr # rest) tp w =
     (case lookupPartitions addr tp w of
        (Inr ps, w1) \<Rightarrow> (Inr ps, w1)
      | (Inl err, w1) \<Rightarrow> LookupPartitions rest tp (log_Error ''lookupPartions failed'' w1))"

text \<open>The lookups an event list holds, as (timeout, network, address, topic).\<close>

fun lookups :: "event list \<Rightarrow> (Duration \<times> string \<times> string \<times> string) list" where
  "lookups [] = []"
| "lookups (Lookup d n a t # es) = (d, n, a, t) # lookups es"
| "lookups (e # es) = lookups es"

section \<open>The supervisor (reader.go)\<close>

text \<open>
  The assignments of \<open>CreateReader\<close> to the fields of the caller's \<open>Config\<close>, in the
  order of the source.
\<close>

definition CreateReader_defaults :: "Config \<Rightarrow> Config" where
  "CreateReader_defaults cfg =
     (let c1 = (if sint (MinBytes cfg) \<le> 0 then cfg\<lparr>MinBytes := MINBYTES\<rparr> else cfg);
          c2 = (if sint (MaxBytes c1) \<le> 0 then c1\<lparr>MaxBytes := MAXBYTES\<rparr> else c1);
          c3 = (if sint (MaxBytes c2) < sint (MinBytes c2)
                then c2\<lparr>MaxBytes := MinBytes c2 + 64\<rparr> else c2);
          c4 = (if sint (ReadBackoffMin c3) \<le> sint READBACKOFFMIN
                then c3\<lparr>ReadBackoffMin := READBACKOFFMIN\<rparr> else c3)
      in c4)"

text \<open>
  The loop over the partitions. A worker gets the pointer to the supervisor, of which it
  reads the fields of \<open>ReaderFields\<close>.
\<close>

fun CreateReader_loop ::
  "Reader \<Rightarrow> Partition list \<Rightarrow> world \<Rightarrow> (error + Reader) outcome \<times> world" where
  "CreateReader_loop r [] w = (Returns (Inr r), w)"
| "CreateReader_loop r (p # rest) w =
     (case NewPartitionReader (ReaderFields.truncate r) p w of
        (Panics, w1) \<Rightarrow> (Panics, w1)
      | (Returns (pr, Some err), w1) \<Rightarrow>
          (Returns (Inl (KafkaError err)), log_Error ''createReader failed'' w1)
      | (Returns (pr, None), w1) \<Rightarrow>
          CreateReader_loop (r\<lparr>readers := readers r @ [pr]\<rparr>) rest w1)"

text \<open>
  \<open>CreateReader\<close> gives the caller's \<open>Config\<close> as it leaves it, also when it panics, and
  returns the supervisor or the error.
\<close>

definition CreateReader ::
  "Config \<Rightarrow> world \<Rightarrow> (Config \<times> (error + Reader) outcome) \<times> world" where
  "CreateReader cfg w =
     (if length (Brokers cfg) = 0 then ((cfg, Returns (Inl ErrNoBrokers)), w)
      else if Topic cfg = [] then ((cfg, Returns (Inl ErrNoTopic)), w)
      else if Handler cfg = None then ((cfg, Returns (Inl ErrNoHandler)), w)
      else
        (let cfg1 = CreateReader_defaults cfg in
         case LookupPartitions (Brokers cfg1) (Topic cfg1) w of
           (Inl err, w1) \<Rightarrow>
             ((cfg1, Returns (Inl err)), log_Error ''failed look partions'' w1)
         | (Inr ps, w1) \<Rightarrow>
             (let r = \<lparr>handleEvent = Handler cfg1,
                       topic = Topic cfg1,
                       brokers = Brokers cfg1,
                       minBytes = MinBytes cfg1,
                       maxBytes = MaxBytes cfg1,
                       partitions = ps,
                       readBackoffMin = ReadBackoffMin cfg1,
                       readers = [],
                       status = False,
                       closing = False\<rparr>;
                  (res, w2) = CreateReader_loop r ps w1
              in ((cfg1, res), w2))))"

section \<open>Events and values named in the statements\<close>

text \<open>
  What one failed attempt of \<open>recover\<close> does, and what a whole recovery with \<open>k\<close> failed
  attempts does, from the failed fetch to the seek of the replacement connection.
\<close>

definition failed_attempt :: "PartitionReader \<Rightarrow> event list" where
  "failed_attempt pr =
     [NewReader (readerConfig pr), SetOffset LastOffset,
      LogError ''recover failed'', Sleep (Second * 3)]"

definition recovery_events :: "PartitionReader \<Rightarrow> nat \<Rightarrow> event list" where
  "recovery_events pr k =
     [Sleep (Millisecond * 200), LogError ''reader broken, start to recover...'']
     @ (case reader pr of None \<Rightarrow> [] | Some rc \<Rightarrow> [CloseReader rc])
     @ concat (replicate k (failed_attempt pr))
     @ [NewReader (readerConfig pr), SetOffset LastOffset]"

text \<open>What a lookup at an address that fails leaves in the events.\<close>

definition failed_lookup :: "string \<Rightarrow> string \<Rightarrow> event list" where
  "failed_lookup tp addr =
     [Lookup (3 * Second) ''tcp'' addr tp, LogError ''lookupPartions failed'']"

text \<open>
  The worker \<open>NewPartitionReader\<close> returns for a partition, and the events of its
  construction.
\<close>

definition new_worker :: "ReaderFields \<Rightarrow> Partition \<Rightarrow> PartitionReader" where
  "new_worker r p =
     \<lparr>parent = r,
      reader = Some (readerConfig \<lparr>parent = r, reader = None, partition = p\<rparr>),
      partition = p\<rparr>"

definition open_events :: "ReaderFields \<Rightarrow> Partition \<Rightarrow> event list" where
  "open_events r p = [NewReader (readerConfig (new_worker r p)), SetOffset LastOffset]"

text \<open>
  The reader configuration \<open>CreateReader\<close> gives the worker of a partition: the brokers
  and the topic of the caller's \<open>Config\<close>, the partition, and the byte thresholds and the
  backoff after the defaults.
\<close>

definition worker_config :: "Config \<Rightarrow> Partition \<Rightarrow> ReaderConfig" where
  "worker_config cfg p =
     \<lparr>rc_Brokers = Brokers cfg,
      rc_Topic = Topic cfg,
      rc_Partition = ID p,
      rc_MinBytes = MinBytes (CreateReader_defaults cfg),
      rc_MaxBytes = MaxBytes (CreateReader_defaults cfg),
      rc_ReadBackoffMin = ReadBackoffMin (CreateReader_defaults cfg)\<rparr>"

text \<open>The errors of the configuration checks.\<close>

fun config_error :: "error \<Rightarrow> bool" where
  "config_error ErrNoBrokers = True"
| "config_error ErrNoTopic = True"
| "config_error ErrNoHandler = True"
| "config_error e = False"

section \<open>Example inputs\<close>

text \<open>
  A partition, a worker on it, configurations and worlds on which the theorems below are
  tried: among them the scenario of the specification, offsets 5, 6, 6, 7 fetched from one
  partition, and brokers A, B, C of which A fails and B answers. The client of these
  worlds rejects what \<open>kafka.NewReader\<close> of kafka-go rejects in the fields
  \<open>createReader\<close> sets: no broker, no topic, a partition out of range, a negative byte
  threshold or backoff, a minimum above the maximum, and a minimum backoff above the
  maximum backoff, which \<open>createReader\<close> leaves at the client's default of one second.
\<close>

definition example_accepts :: "ReaderConfig \<Rightarrow> bool" where
  "example_accepts rc \<longleftrightarrow>
     rc_Brokers rc \<noteq> [] \<and> rc_Topic rc \<noteq> [] \<and>
     0 \<le> sint (rc_Partition rc) \<and> sint (rc_Partition rc) < 2147483647 \<and>
     0 \<le> sint (rc_MinBytes rc) \<and> 0 \<le> sint (rc_MaxBytes rc) \<and>
     sint (rc_MinBytes rc) \<le> sint (rc_MaxBytes rc) \<and>
     0 \<le> sint (rc_ReadBackoffMin rc) \<and> sint (rc_ReadBackoffMin rc) \<le> sint Second"

definition msg_at :: "int64 \<Rightarrow> Message" where
  "msg_at n = \<lparr>Offset = n, Key = [], Value = []\<rparr>"

definition example_partition :: Partition where
  "example_partition = \<lparr>ID = 0, Leader = ''b1:9092''\<rparr>"

definition example_fields :: ReaderFields where
  "example_fields =
     \<lparr>handleEvent = Some (Callback 0), topic = ''orders'', brokers = [''b1:9092'', ''b2:9092''],
      minBytes = 512, maxBytes = 4194304, partitions = [example_partition],
      readBackoffMin = 100000000\<rparr>"

definition example_worker :: PartitionReader where
  "example_worker =
     \<lparr>parent = example_fields,
      reader = Some \<lparr>rc_Brokers = [''b1:9092'', ''b2:9092''], rc_Topic = ''orders'',
                     rc_Partition = 0, rc_MinBytes = 512, rc_MaxBytes = 4194304,
                     rc_ReadBackoffMin = 100000000\<rparr>,
      partition = example_partition\<rparr>"

definition example_worker_2s :: PartitionReader where
  "example_worker_2s = example_worker\<lparr>parent := example_fields\<lparr>readBackoffMin := 2 * Second\<rparr>\<rparr>"

definition world_5667 :: world where
  "world_5667 =
     \<lparr>accepts = example_accepts,
      lookup_replies = sconst (Inl ''unreachable''),
      seek_replies = sconst None,
      fetch_replies = [Inr (msg_at 5), Inr (msg_at 6), Inr (msg_at 6), Inr (msg_at 7)]
                        @- sconst (Inl ''EOF''),
      events = []\<rparr>"

definition world_0102 :: world where
  "world_0102 =
     \<lparr>accepts = example_accepts,
      lookup_replies = sconst (Inl ''unreachable''),
      seek_replies = sconst None,
      fetch_replies = [Inr (msg_at 0), Inr (msg_at 1), Inr (msg_at 0), Inr (msg_at 2)]
                        @- sconst (Inl ''EOF''),
      events = []\<rparr>"

definition world_broken :: world where
  "world_broken =
     \<lparr>accepts = example_accepts,
      lookup_replies = sconst (Inl ''unreachable''),
      seek_replies = [Some ''dial tcp: connection refused''] @- sconst None,
      fetch_replies = [Inl ''broken pipe'', Inr (msg_at 3), Inr (msg_at 5), Inr (msg_at 9)]
                        @- sconst (Inl ''EOF''),
      events = []\<rparr>"

definition world_down :: world where
  "world_down =
     \<lparr>accepts = example_accepts,
      lookup_replies = sconst (Inl ''unreachable''),
      seek_replies = sconst (Some ''dial tcp: connection refused''),
      fetch_replies = sconst (Inl ''broken pipe''),
      events = []\<rparr>"

definition world_ABC :: world where
  "world_ABC =
     \<lparr>accepts = example_accepts,
      lookup_replies = [Inl ''i/o timeout'', Inr [example_partition]] @- sconst (Inl ''unused''),
      seek_replies = sconst None,
      fetch_replies = sconst (Inl ''EOF''),
      events = []\<rparr>"

definition world_unreachable :: world where
  "world_unreachable =
     \<lparr>accepts = example_accepts,
      lookup_replies = sconst (Inl ''i/o timeout''),
      seek_replies = sconst None,
      fetch_replies = sconst (Inl ''EOF''),
      events = []\<rparr>"

definition example_config :: Config where
  "example_config =
     \<lparr>Name = ''orders-consumer'', Brokers = [''A'', ''B'', ''C''], Topic = ''orders'',
      MinBytes = 0, MaxBytes = 0, ReadBackoffMin = 0, Handler = Some (Callback 0)\<rparr>"

definition world_seek_fails :: world where
  "world_seek_fails =
     \<lparr>accepts = example_accepts,
      lookup_replies = sconst (Inr [\<lparr>ID = 0, Leader = ''A''\<rparr>, \<lparr>ID = 1, Leader = ''B''\<rparr>]),
      seek_replies = [None, Some ''reader closed''] @- sconst None,
      fetch_replies = sconst (Inl ''EOF''),
      events = []\<rparr>"

definition cfg_backoff_50ms :: Config where
  "cfg_backoff_50ms = example_config\<lparr>ReadBackoffMin := 50 * Millisecond\<rparr>"

definition cfg_backoff_250ms :: Config where
  "cfg_backoff_250ms = example_config\<lparr>ReadBackoffMin := 250 * Millisecond\<rparr>"

definition cfg_backoff_2s :: Config where
  "cfg_backoff_2s = example_config\<lparr>ReadBackoffMin := 2 * Second\<rparr>"

definition cfg_min_huge :: Config where
  "cfg_min_huge = example_config\<lparr>MinBytes := 9223372036854775807, MaxBytes := 1\<rparr>"

definition world_no_partitions :: world where
  "world_no_partitions =
     \<lparr>accepts = example_accepts,
      lookup_replies = sconst (Inr []),
      seek_replies = sconst None,
      fetch_replies = sconst (Inl ''EOF''),
      events = []\<rparr>"

definition cfg_negative :: Config where
  "cfg_negative = example_config\<lparr>MinBytes := - 1, MaxBytes := - 5\<rparr>"

section \<open>Properties of the partition worker\<close>

lemma readerConfig_reader [simp]: "readerConfig (pr\<lparr>reader := x\<rparr>) = readerConfig pr"
  by (simp add: readerConfig_def)

lemma createReader_eq:
  "accepts w (readerConfig pr) \<Longrightarrow>
   createReader pr w =
     (Returns (shd (seek_replies w), pr\<lparr>reader := Some (readerConfig pr)\<rparr>),
      w\<lparr>seek_replies := stl (seek_replies w),
        events := events w @ [NewReader (readerConfig pr), SetOffset LastOffset]\<rparr>)"
  by (simp add: createReader_def kafka_NewReader_def kafka_SetOffset_def emit_def)

lemma createReader_panics:
  "\<not> accepts w (readerConfig pr) \<Longrightarrow> createReader pr w = (Panics, w)"
  by (simp add: createReader_def kafka_NewReader_def)

lemma recover_loop_panics:
  "\<not> accepts w (readerConfig pr) \<Longrightarrow> recover_loop pr w = Some (Panics, w)"
  by (subst recover_loop.simps) (simp add: createReader_panics)

lemma recover_loop_returns:
  "accepts w (readerConfig pr) \<Longrightarrow> seek_replies w = map Some es @- None ## rest \<Longrightarrow>
   recover_loop pr w =
     Some (Returns (pr\<lparr>reader := Some (readerConfig pr)\<rparr>),
           w\<lparr>seek_replies := rest,
             events := events w @ concat (replicate (length es) (failed_attempt pr))
                         @ [NewReader (readerConfig pr), SetOffset LastOffset]\<rparr>)"
proof (induction es arbitrary: pr w)
  case Nil
  then show ?case
    by (subst recover_loop.simps) (simp add: createReader_eq)
next
  case (Cons e es)
  let ?pr1 = "pr\<lparr>reader := Some (readerConfig pr)\<rparr>"
  let ?w1 = "time_Sleep (Second * 3) (log_Error ''recover failed''
      (w\<lparr>seek_replies := stl (seek_replies w),
        events := events w @ [NewReader (readerConfig pr), SetOffset LastOffset]\<rparr>))"
  have a: "accepts ?w1 (readerConfig ?pr1)"
    using Cons.prems(1) by (simp add: time_Sleep_def log_Error_def emit_def)
  have s: "seek_replies ?w1 = map Some es @- None ## rest"
    using Cons.prems(2) by (simp add: time_Sleep_def log_Error_def emit_def)
  have "recover_loop pr w = recover_loop ?pr1 ?w1"
    using Cons.prems by (subst recover_loop.simps) (simp add: createReader_eq)
  also note Cons.IH [OF a s]
  finally show ?case
    by (simp add: time_Sleep_def log_Error_def emit_def failed_attempt_def)
qed

lemma recover_loop_Some_shape:
  assumes "recover_loop pr w = Some x" and "accepts w (readerConfig pr)"
  shows "\<exists>es rest. seek_replies w = map Some es @- None ## rest"
proof -
  have "accepts w (readerConfig pr) \<longrightarrow>
          (\<exists>es rest. seek_replies w = map Some es @- None ## rest)"
  proof (rule recover_loop.raw_induct
      [where P = "\<lambda>pr w x. accepts w (readerConfig pr) \<longrightarrow>
                     (\<exists>es rest. seek_replies w = map Some es @- None ## rest)",
        OF _ assms(1)], goal_cases)
    case (1 f pr w x)
    show ?case
    proof
      assume acc: "accepts w (readerConfig pr)"
      show "\<exists>es rest. seek_replies w = map Some es @- None ## rest"
      proof (cases "shd (seek_replies w)")
        case None
        then have "seek_replies w = map Some [] @- None ## stl (seek_replies w)"
          by (cases "seek_replies w") simp
        then show ?thesis by blast
      next
        case (Some e)
        with 1(2) acc obtain pr1 w1 where r: "f pr1 w1 = Some x"
          and w1: "seek_replies w1 = stl (seek_replies w)"
          and a1: "accepts w1 (readerConfig pr1)"
          by (auto simp: createReader_eq time_Sleep_def log_Error_def emit_def)
        from 1(1) [OF r] a1 w1 obtain es rest
          where "stl (seek_replies w) = map Some es @- None ## rest"
          by auto
        with Some have "seek_replies w = map Some (e # es) @- None ## rest"
          by (cases "seek_replies w") simp
        then show ?thesis by blast
      qed
    qed
  qed
  with assms(2) show ?thesis by simp
qed

lemma handled_append: "handled (xs @ ys) = handled xs @ handled ys"
  by (induction xs rule: handled.induct) simp_all

lemma handled_replicate_attempt:
  "handled (concat (replicate k (failed_attempt pr))) = []"
  by (induction k) (simp_all add: failed_attempt_def)

lemma handled_recovery_events: "handled (recovery_events pr k) = []"
  by (simp add: recovery_events_def handled_append handled_replicate_attempt split: option.split)

lemma Start_body_old:
  "shd (fetch_replies w) = Inr msg \<Longrightarrow> sint (Offset msg) \<le> sint maxOffset \<Longrightarrow>
   Start_body pr maxOffset w =
     Some (Returns (pr, maxOffset), w\<lparr>fetch_replies := stl (fetch_replies w)\<rparr>)"
  by (simp add: Start_body_def kafka_FetchMessage_def)

lemma Start_body_new:
  "shd (fetch_replies w) = Inr msg \<Longrightarrow> sint maxOffset < sint (Offset msg) \<Longrightarrow>
   Start_body pr maxOffset w =
     Some (Returns (pr, Offset msg),
           w\<lparr>fetch_replies := stl (fetch_replies w),
             events := events w @ [HandleEvent (ID (partition pr)) msg]\<rparr>)"
  by (simp add: Start_body_def kafka_FetchMessage_def emit_def)

lemma Start_body_recovers:
  assumes "shd (fetch_replies w) = Inl err"
    and "accepts w (readerConfig pr)"
    and "seek_replies w = map Some es @- None ## rest"
  shows "Start_body pr maxOffset w =
     Some (Returns (pr\<lparr>reader := Some (readerConfig pr)\<rparr>, maxOffset),
           w\<lparr>fetch_replies := stl (fetch_replies w), seek_replies := rest,
             events := events w @ recovery_events pr (length es)\<rparr>)"
proof -
  let ?w1 = "log_Error ''reader broken, start to recover...''
               (time_Sleep (Millisecond * 200) (w\<lparr>fetch_replies := stl (fetch_replies w)\<rparr>))"
  let ?w2 = "case reader pr of None \<Rightarrow> ?w1 | Some rc \<Rightarrow> kafka_Close rc ?w1"
  have a: "accepts ?w2 (readerConfig pr)"
    using assms(2)
    by (simp add: log_Error_def time_Sleep_def kafka_Close_def emit_def split: option.split)
  have s: "seek_replies ?w2 = map Some es @- None ## rest"
    using assms(3)
    by (simp add: log_Error_def time_Sleep_def kafka_Close_def emit_def split: option.split)
  have "recover pr ?w1 = recover_loop pr ?w2"
    by (simp add: recover_def)
  also note recover_loop_returns [OF a s]
  finally have "recover pr ?w1 =
     Some (Returns (pr\<lparr>reader := Some (readerConfig pr)\<rparr>),
           w\<lparr>fetch_replies := stl (fetch_replies w), seek_replies := rest,
             events := events w @ recovery_events pr (length es)\<rparr>)"
    by (simp add: log_Error_def time_Sleep_def kafka_Close_def emit_def recovery_events_def
        split: option.split)
  with assms(1) show ?thesis
    by (simp add: Start_body_def kafka_FetchMessage_def)
qed

lemma Start_body_panics:
  assumes "shd (fetch_replies w) = Inl err"
    and "\<not> accepts w (readerConfig pr)"
  shows "Start_body pr maxOffset w =
     Some (Panics,
           w\<lparr>fetch_replies := stl (fetch_replies w),
             events := events w @
               [Sleep (Millisecond * 200), LogError ''reader broken, start to recover...'']
               @ (case reader pr of None \<Rightarrow> [] | Some rc \<Rightarrow> [CloseReader rc])\<rparr>)"
proof -
  let ?w1 = "log_Error ''reader broken, start to recover...''
               (time_Sleep (Millisecond * 200) (w\<lparr>fetch_replies := stl (fetch_replies w)\<rparr>))"
  let ?w2 = "case reader pr of None \<Rightarrow> ?w1 | Some rc \<Rightarrow> kafka_Close rc ?w1"
  have a: "\<not> accepts ?w2 (readerConfig pr)"
    using assms(2)
    by (simp add: log_Error_def time_Sleep_def kafka_Close_def emit_def split: option.split)
  have "recover pr ?w1 = recover_loop pr ?w2"
    by (simp add: recover_def)
  also note recover_loop_panics [OF a]
  finally have "recover pr ?w1 =
     Some (Panics,
           w\<lparr>fetch_replies := stl (fetch_replies w),
             events := events w @
               [Sleep (Millisecond * 200), LogError ''reader broken, start to recover...'']
               @ (case reader pr of None \<Rightarrow> [] | Some rc \<Rightarrow> [CloseReader rc])\<rparr>)"
    by (simp add: log_Error_def time_Sleep_def kafka_Close_def emit_def split: option.split)
  with assms(1) show ?thesis
    by (simp add: Start_body_def kafka_FetchMessage_def)
qed

lemma Start_body_failed_shape:
  assumes "shd (fetch_replies w) = Inl err"
    and "Start_body pr maxOffset w = Some x"
    and "accepts w (readerConfig pr)"
  shows "\<exists>es rest. seek_replies w = map Some es @- None ## rest"
proof -
  let ?w1 = "log_Error ''reader broken, start to recover...''
               (time_Sleep (Millisecond * 200) (w\<lparr>fetch_replies := stl (fetch_replies w)\<rparr>))"
  let ?w2 = "case reader pr of None \<Rightarrow> ?w1 | Some rc \<Rightarrow> kafka_Close rc ?w1"
  have s: "seek_replies ?w2 = seek_replies w"
    by (simp add: log_Error_def time_Sleep_def kafka_Close_def emit_def split: option.split)
  have a: "accepts ?w2 (readerConfig pr)"
    using assms(3)
    by (simp add: log_Error_def time_Sleep_def kafka_Close_def emit_def split: option.split)
  from assms(1,2) obtain y where "recover_loop pr ?w2 = Some y"
    by (auto simp: Start_body_def kafka_FetchMessage_def recover_def split: option.splits)
  from recover_loop_Some_shape [OF this a] s show ?thesis by simp
qed

lemma Start_body_failed:
  assumes "shd (fetch_replies w) = Inl err"
    and "Start_body pr m w = Some (Returns (pr1, m1), w1)"
  shows "\<exists>k. pr1 = pr\<lparr>reader := Some (readerConfig pr)\<rparr> \<and> m1 = m \<and>
           events w1 = events w @ recovery_events pr k"
proof -
  have acc: "accepts w (readerConfig pr)"
  proof (rule ccontr)
    assume "\<not> accepts w (readerConfig pr)"
    from Start_body_panics [OF assms(1) this, of m] assms(2) show False by simp
  qed
  from Start_body_failed_shape [OF assms acc] obtain es rest
    where "seek_replies w = map Some es @- None ## rest" by blast
  from Start_body_recovers [OF assms(1) acc this, of m] assms(2)
  have "pr1 = pr\<lparr>reader := Some (readerConfig pr)\<rparr> \<and> m1 = m \<and>
           events w1 = events w @ recovery_events pr (length es)"
    by simp
  then show ?thesis ..
qed

lemma Start_body_step:
  assumes "Start_body pr m w = Some (Returns (pr1, m1), w1)"
  shows "\<exists>evs. events w1 = events w @ evs \<and>
           (handled evs = [] \<and> m1 = m \<or>
            (\<exists>msg. handled evs = [msg] \<and> m1 = Offset msg \<and> sint m < sint m1))"
proof (cases "shd (fetch_replies w)")
  case (Inl err)
  from Start_body_failed [OF Inl assms] obtain k
    where "events w1 = events w @ recovery_events pr k" and "m1 = m"
    by blast
  then show ?thesis
    using handled_recovery_events by blast
next
  case (Inr msg)
  show ?thesis
  proof (cases "sint (Offset msg) \<le> sint m")
    case True
    from Start_body_old [OF Inr True, of pr] assms
    have "events w1 = events w" and "m1 = m" by auto
    then show ?thesis by (intro exI [of _ "[]"]) simp
  next
    case False
    then have lt: "sint m < sint (Offset msg)" by simp
    from Start_body_new [OF Inr lt, of pr] assms
    have "events w1 = events w @ [HandleEvent (ID (partition pr)) msg]" and "m1 = Offset msg"
      by auto
    with lt show ?thesis
      by (intro exI [of _ "[HandleEvent (ID (partition pr)) msg]"]) simp
  qed
qed

lemma Start_loop_increasing:
  "Start_loop n pr m w = Some (Returns (pr1, m1), w1) \<Longrightarrow>
   \<exists>evs. events w1 = events w @ evs \<and>
     sorted_wrt (\<lambda>a b. sint a < sint b) (m # map Offset (handled evs)) \<and>
     m1 = last (m # map Offset (handled evs))"
proof (induction n arbitrary: pr m w)
  case 0
  then show ?case by (intro exI [of _ "[]"]) simp
next
  case (Suc n)
  from Suc.prems obtain pr' m' w' where b: "Start_body pr m w = Some (Returns (pr', m'), w')"
    and l: "Start_loop n pr' m' w' = Some (Returns (pr1, m1), w1)"
    by (auto split: option.splits outcome.splits)
  from Start_body_step [OF b] obtain evs1 where e1: "events w' = events w @ evs1"
    and h1: "handled evs1 = [] \<and> m' = m \<or>
            (\<exists>msg. handled evs1 = [msg] \<and> m' = Offset msg \<and> sint m < sint m')"
    by blast
  from Suc.IH [OF l] obtain evs2 where e2: "events w1 = events w' @ evs2"
    and s2: "sorted_wrt (\<lambda>a b. sint a < sint b) (m' # map Offset (handled evs2))"
    and m1: "m1 = last (m' # map Offset (handled evs2))"
    by blast
  have e: "events w1 = events w @ (evs1 @ evs2)"
    using e1 e2 by simp
  from h1 have "sorted_wrt (\<lambda>a b. sint a < sint b) (m # map Offset (handled (evs1 @ evs2))) \<and>
     m1 = last (m # map Offset (handled (evs1 @ evs2)))"
  proof
    assume "handled evs1 = [] \<and> m' = m"
    with s2 m1 show ?thesis by (simp add: handled_append)
  next
    assume "\<exists>msg. handled evs1 = [msg] \<and> m' = Offset msg \<and> sint m < sint m'"
    then obtain msg where h: "handled evs1 = [msg]" and m': "m' = Offset msg"
      and lt: "sint m < sint m'" by blast
    from s2 lt have "\<forall>y\<in>set (map Offset (handled evs2)). sint m < sint y"
      by auto
    with s2 lt m1 h m' show ?thesis
      by (simp add: handled_append)
  qed
  with e show ?case by blast
qed

text \<open>
  A worker that \<open>NewPartitionReader\<close> returns holds a connection, and a turn of the loop
  of \<open>Start\<close> that returns leaves the worker one.
\<close>

lemma NewPartitionReader_reader:
  "NewPartitionReader r p w = (Returns (pr, err), w1) \<Longrightarrow>
   pr = new_worker r p \<and> accepts w (readerConfig pr)"
  by (cases "accepts w (readerConfig \<lparr>parent = r, reader = None, partition = p\<rparr>)")
     (auto simp: NewPartitionReader_def createReader_eq createReader_panics new_worker_def
        readerConfig_def)

lemma Start_body_reader:
  assumes "reader pr \<noteq> None" and "Start_body pr m w = Some (Returns (pr1, m1), w1)"
  shows "reader pr1 \<noteq> None"
proof (cases "shd (fetch_replies w)")
  case (Inl err)
  from Start_body_failed [OF Inl assms(2)] show ?thesis
    by auto
next
  case (Inr msg)
  with assms show ?thesis
    by (auto simp: Start_body_def kafka_FetchMessage_def split: if_splits)
qed

lemma last_recovery_events: "last (recovery_events pr k) = SetOffset LastOffset"
  by (simp add: recovery_events_def)

lemma SetOffset_in_attempts:
  "SetOffset t \<in> set (failed_attempt pr) \<Longrightarrow> t = LastOffset"
  by (auto simp: failed_attempt_def)

lemma SetOffset_in_recovery_events:
  "SetOffset t \<in> set (recovery_events pr k) \<Longrightarrow> t = LastOffset"
  by (auto simp: recovery_events_def dest: SetOffset_in_attempts split: option.splits)

lemma first_success_shape:
  "s !! k = None \<Longrightarrow> \<exists>es rest. s = map Some es @- None ## rest"
proof (induction k arbitrary: s)
  case 0
  then have "s = map Some [] @- None ## stl s"
    by (cases s) simp
  then show ?case by blast
next
  case (Suc k)
  show ?case
  proof (cases "shd s")
    case None
    then have "s = map Some [] @- None ## stl s"
      by (cases s) simp
    then show ?thesis by blast
  next
    case (Some e)
    from Suc.prems have "stl s !! k = None" by simp
    from Suc.IH [OF this] obtain es rest where "stl s = map Some es @- None ## rest"
      by blast
    with Some have "s = map Some (e # es) @- None ## rest"
      by (cases s) simp
    then show ?thesis by blast
  qed
qed

section \<open>The claims on the partition worker\<close>

text \<open>
  C1. Whatever the worker fetches, the offsets it hands to the handler are strictly
  increasing: after any number of turns of the loop of \<open>Start\<close>, begun with any tracked
  maximum, the offsets handled since then, with the initial maximum in front, increase
  strictly, and the tracked maximum is the last of them. In one turn, a fetched message
  whose offset is at most the tracked maximum leaves the maximum and the events as they
  are (the handler is not called); any other fetched message becomes the tracked maximum
  and is handed to the handler.
\<close>

theorem Start_delivers_increasing_offsets:
  "(Start_loop n pr maxOffset w = Some (Returns (pr', maxOffset'), w') \<longrightarrow>
      (\<exists>evs. events w' = events w @ evs \<and>
         sorted_wrt (\<lambda>a b. sint a < sint b) (maxOffset # map Offset (handled evs)) \<and>
         maxOffset' = last (maxOffset # map Offset (handled evs)))) \<and>
   (shd (fetch_replies w) = Inr msg \<longrightarrow>
      Start_body pr maxOffset w =
        (if sint (Offset msg) \<le> sint maxOffset
         then Some (Returns (pr, maxOffset), w\<lparr>fetch_replies := stl (fetch_replies w)\<rparr>)
         else Some (Returns (pr, Offset msg),
                    w\<lparr>fetch_replies := stl (fetch_replies w),
                      events := events w @ [HandleEvent (ID (partition pr)) msg]\<rparr>)))"
proof (intro conjI impI)
  assume "Start_loop n pr maxOffset w = Some (Returns (pr', maxOffset'), w')"
  then show "\<exists>evs. events w' = events w @ evs \<and>
         sorted_wrt (\<lambda>a b. sint a < sint b) (maxOffset # map Offset (handled evs)) \<and>
         maxOffset' = last (maxOffset # map Offset (handled evs))"
    by (rule Start_loop_increasing)
next
  assume "shd (fetch_replies w) = Inr msg"
  then show "Start_body pr maxOffset w =
        (if sint (Offset msg) \<le> sint maxOffset
         then Some (Returns (pr, maxOffset), w\<lparr>fetch_replies := stl (fetch_replies w)\<rparr>)
         else Some (Returns (pr, Offset msg),
                    w\<lparr>fetch_replies := stl (fetch_replies w),
                      events := events w @ [HandleEvent (ID (partition pr)) msg]\<rparr>))"
    by (simp add: Start_body_old Start_body_new)
qed

lemma example_worker_accepted:
  "accepts world_broken (readerConfig example_worker)"
  "accepts world_down (readerConfig example_worker)"
  by (simp_all add: world_broken_def world_down_def example_accepts_def readerConfig_def
      example_worker_def example_fields_def example_partition_def Second_def Millisecond_def)

lemma Start_loop_example:
  "Start_loop 4 example_worker 0 world_5667 =
     Some (Returns (example_worker, 7),
           world_5667\<lparr>fetch_replies := sconst (Inl ''EOF''),
             events := [HandleEvent 0 (msg_at 5), HandleEvent 0 (msg_at 6),
                        HandleEvent 0 (msg_at 7)]\<rparr>)"
  by (simp add: eval_nat_numeral Start_body_def kafka_FetchMessage_def emit_def world_5667_def
      msg_at_def example_worker_def example_partition_def)

theorem Start_delivers_increasing_offsets_witness:
  "Start_loop 4 example_worker 0 world_5667 =
     Some (Returns (example_worker, 7),
           world_5667\<lparr>fetch_replies := sconst (Inl ''EOF''),
             events := [HandleEvent 0 (msg_at 5), HandleEvent 0 (msg_at 6),
                        HandleEvent 0 (msg_at 7)]\<rparr>) \<and>
   shd (fetch_replies world_5667) = Inr (msg_at 5) \<and>
   map Offset (handled [HandleEvent 0 (msg_at 5), HandleEvent 0 (msg_at 6),
                        HandleEvent 0 (msg_at 7)]) = [5, 6, 7] \<and>
   sorted_wrt (\<lambda>a b. sint a < sint b) [0, 5, 6, 7 :: int64] \<and>
   Start_body example_worker 0 world_5667 =
     Some (Returns (example_worker, 5),
           world_5667\<lparr>fetch_replies := [Inr (msg_at 6), Inr (msg_at 6), Inr (msg_at 7)]
                                         @- sconst (Inl ''EOF''),
             events := [HandleEvent 0 (msg_at 5)]\<rparr>)"
proof -
  have hd: "shd (fetch_replies world_5667) = Inr (msg_at 5)"
    by (simp add: world_5667_def)
  note t = Start_delivers_increasing_offsets
    [of 4 example_worker 0 world_5667 example_worker 7
        "world_5667\<lparr>fetch_replies := sconst (Inl ''EOF''),
             events := [HandleEvent 0 (msg_at 5), HandleEvent 0 (msg_at 6),
                        HandleEvent 0 (msg_at 7)]\<rparr>" "msg_at 5"]
  from t Start_loop_example hd show ?thesis
    by (simp add: world_5667_def msg_at_def example_worker_def example_partition_def)
qed

text \<open>
  C9. \<open>Start\<close> begins with the tracked maximum 0 and drops every message whose offset is
  at most the tracked maximum: after any number of turns of its loop, every message
  handed to the handler has an offset of at least 1, so the message at offset 0 of a
  partition is never handed over.
\<close>

theorem Start_never_delivers_offset_zero:
  "Start n pr w = Some (Returns (pr', maxOffset'), w') \<Longrightarrow>
   \<exists>evs. events w' = events w @ evs \<and> (\<forall>m\<in>set (handled evs). 1 \<le> sint (Offset m))"
proof -
  assume "Start n pr w = Some (Returns (pr', maxOffset'), w')"
  then have "Start_loop n pr 0 w = Some (Returns (pr', maxOffset'), w')"
    by (simp add: Start_def)
  from Start_loop_increasing [OF this] obtain evs where e: "events w' = events w @ evs"
    and s: "sorted_wrt (\<lambda>a b. sint a < sint b) (0 # map Offset (handled evs))"
    by blast
  from s have "\<forall>m\<in>set (handled evs). 1 \<le> sint (Offset m)"
    by auto
  with e show ?thesis by blast
qed

lemma Start_example_0102:
  "Start 4 example_worker world_0102 =
     Some (Returns (example_worker, 2),
           world_0102\<lparr>fetch_replies := sconst (Inl ''EOF''),
             events := [HandleEvent 0 (msg_at 1), HandleEvent 0 (msg_at 2)]\<rparr>)"
  by (simp add: Start_def eval_nat_numeral Start_body_def kafka_FetchMessage_def emit_def
      world_0102_def msg_at_def example_worker_def example_partition_def)

theorem Start_never_delivers_offset_zero_witness:
  "Start 4 example_worker world_0102 =
     Some (Returns (example_worker, 2),
           world_0102\<lparr>fetch_replies := sconst (Inl ''EOF''),
             events := [HandleEvent 0 (msg_at 1), HandleEvent 0 (msg_at 2)]\<rparr>) \<and>
   shd (fetch_replies world_0102) = Inr (msg_at 0) \<and>
   handled [HandleEvent 0 (msg_at 1), HandleEvent 0 (msg_at 2)] = [msg_at 1, msg_at 2] \<and>
   1 \<le> sint (Offset (msg_at 1)) \<and> 1 \<le> sint (Offset (msg_at 2))"
  using Start_never_delivers_offset_zero [OF Start_example_0102] Start_example_0102
  by (simp add: world_0102_def msg_at_def)

text \<open>
  C2. When a fetch fails and the recovery returns, the tracked maximum is the one from
  before the failure, the worker holds the replacement connection, every seek made
  during the recovery is to \<open>LastOffset\<close>, the newest offset of the broker (none is to
  an offset the worker delivered), the seek of the replacement connection being the last
  event of the recovery, and every message handed to the handler in any number of later
  turns has an offset strictly above the tracked maximum from before the failure.
\<close>

theorem Start_after_recovery_delivers_above_maximum:
  assumes "shd (fetch_replies w) = Inl err"
    and "Start_body pr maxOffset w = Some (Returns (pr1, maxOffset1), w1)"
    and "Start_loop n pr1 maxOffset1 w1 = Some (Returns (pr2, maxOffset2), w2)"
  shows "maxOffset1 = maxOffset \<and> reader pr1 = Some (readerConfig pr) \<and>
    (\<exists>evs. events w1 = events w @ evs \<and> last evs = SetOffset LastOffset \<and>
            (\<forall>t. SetOffset t \<in> set evs \<longrightarrow> t = LastOffset)) \<and>
    (\<exists>evs. events w2 = events w1 @ evs \<and>
            (\<forall>m\<in>set (handled evs). sint maxOffset < sint (Offset m)))"
proof -
  from Start_body_failed [OF assms(1,2)] obtain k
    where pr1: "pr1 = pr\<lparr>reader := Some (readerConfig pr)\<rparr>" and m1: "maxOffset1 = maxOffset"
      and e1: "events w1 = events w @ recovery_events pr k"
    by blast
  have seek: "\<exists>evs. events w1 = events w @ evs \<and> last evs = SetOffset LastOffset \<and>
            (\<forall>t. SetOffset t \<in> set evs \<longrightarrow> t = LastOffset)"
    using e1 last_recovery_events SetOffset_in_recovery_events by blast
  from Start_loop_increasing [OF assms(3)] obtain evs where e2: "events w2 = events w1 @ evs"
    and s: "sorted_wrt (\<lambda>a b. sint a < sint b) (maxOffset1 # map Offset (handled evs))"
    by blast
  from s m1 have "\<forall>m\<in>set (handled evs). sint maxOffset < sint (Offset m)"
    by auto
  with e2 have "\<exists>evs. events w2 = events w1 @ evs \<and>
            (\<forall>m\<in>set (handled evs). sint maxOffset < sint (Offset m))"
    by blast
  with pr1 m1 seek show ?thesis by simp
qed

lemma Start_body_example_broken:
  "Start_body example_worker 5 world_broken =
     Some (Returns (example_worker, 5),
           world_broken\<lparr>fetch_replies := [Inr (msg_at 3), Inr (msg_at 5), Inr (msg_at 9)]
                                           @- sconst (Inl ''EOF''),
             seek_replies := sconst None,
             events := recovery_events example_worker 1\<rparr>)"
proof -
  have f: "shd (fetch_replies world_broken) = Inl ''broken pipe''"
    by (simp add: world_broken_def)
  have s: "seek_replies world_broken = map Some [''dial tcp: connection refused''] @- None ## sconst None"
    by (simp add: world_broken_def) (subst siterate.ctr, simp)
  have r: "example_worker\<lparr>reader := Some (readerConfig example_worker)\<rparr> = example_worker"
    by (simp add: example_worker_def readerConfig_def example_fields_def example_partition_def)
  have a: "accepts world_broken (readerConfig example_worker)"
    by (rule example_worker_accepted(1))
  from Start_body_recovers [OF f a s, of 5] r show ?thesis
    by (simp add: world_broken_def)
qed

lemma Start_loop_example_broken:
  "Start_loop 3 example_worker 5
     (world_broken\<lparr>fetch_replies := [Inr (msg_at 3), Inr (msg_at 5), Inr (msg_at 9)]
                                           @- sconst (Inl ''EOF''),
             seek_replies := sconst None,
             events := recovery_events example_worker 1\<rparr>) =
   Some (Returns (example_worker, 9),
         world_broken\<lparr>fetch_replies := sconst (Inl ''EOF''),
             seek_replies := sconst None,
             events := recovery_events example_worker 1 @ [HandleEvent 0 (msg_at 9)]\<rparr>)"
  by (simp add: eval_nat_numeral Start_body_def kafka_FetchMessage_def emit_def
      world_broken_def msg_at_def example_worker_def example_partition_def)

theorem Start_after_recovery_delivers_above_maximum_witness:
  "shd (fetch_replies world_broken) = Inl ''broken pipe'' \<and>
   Start_body example_worker 5 world_broken =
     Some (Returns (example_worker, 5),
           world_broken\<lparr>fetch_replies := [Inr (msg_at 3), Inr (msg_at 5), Inr (msg_at 9)]
                                           @- sconst (Inl ''EOF''),
             seek_replies := sconst None,
             events := recovery_events example_worker 1\<rparr>) \<and>
   Start_loop 3 example_worker 5
     (world_broken\<lparr>fetch_replies := [Inr (msg_at 3), Inr (msg_at 5), Inr (msg_at 9)]
                                           @- sconst (Inl ''EOF''),
             seek_replies := sconst None,
             events := recovery_events example_worker 1\<rparr>) =
   Some (Returns (example_worker, 9),
         world_broken\<lparr>fetch_replies := sconst (Inl ''EOF''),
             seek_replies := sconst None,
             events := recovery_events example_worker 1 @ [HandleEvent 0 (msg_at 9)]\<rparr>) \<and>
   reader example_worker = Some (readerConfig example_worker) \<and>
   last (recovery_events example_worker 1) = SetOffset LastOffset \<and>
   handled [HandleEvent 0 (msg_at 9)] = [msg_at 9] \<and>
   sint (5 :: int64) < sint (Offset (msg_at 9))"
proof -
  have f: "shd (fetch_replies world_broken) = Inl ''broken pipe''"
    by (simp add: world_broken_def)
  from Start_after_recovery_delivers_above_maximum
    [OF f Start_body_example_broken Start_loop_example_broken]
  have "reader example_worker = Some (readerConfig example_worker)"
    by simp
  with f Start_body_example_broken Start_loop_example_broken last_recovery_events
  show ?thesis
    by (simp add: msg_at_def)
qed

text \<open>
  C5. When a fetch fails, and the client accepts the worker's reader configuration (it
  is the configuration of the worker's first connection, so the client has accepted it
  for every worker \<open>CreateReader\<close> returned: \<open>CreateReader_workers_accepted\<close>): if the first
  \<open>length es\<close> attempts to create and seek a connection fail and the next one succeeds,
  the turn of the loop ends in the consuming state with the replacement connection and
  the tracked maximum unchanged, having done exactly \<open>recovery_events\<close>: a sleep of
  200 ms, the log line, the close of the current connection if there is one, then for
  each failed attempt the creation and the seek with the same configuration, a log line
  and a sleep of 3 s, and at last the creation and seek that succeeded. This holds for
  any number of failures. If no attempt ever succeeds the turn never ends; if some
  attempt succeeds it does end. The result of a turn holds the worker, the tracked
  maximum and the world, and no error: none is returned. Where the client rejects the
  worker's reader configuration, the first attempt panics, after the sleep, the log line
  and the close.
\<close>

theorem Start_body_recovers_until_connected:
  assumes "shd (fetch_replies w) = Inl err"
  shows "(accepts w (readerConfig pr) \<and> seek_replies w = map Some es @- None ## rest \<longrightarrow>
            Start_body pr maxOffset w =
              Some (Returns (pr\<lparr>reader := Some (readerConfig pr)\<rparr>, maxOffset),
                    w\<lparr>fetch_replies := stl (fetch_replies w), seek_replies := rest,
                      events := events w @ recovery_events pr (length es)\<rparr>)) \<and>
         (accepts w (readerConfig pr) \<and> (\<forall>k. seek_replies w !! k \<noteq> None) \<longrightarrow>
            Start_body pr maxOffset w = None) \<and>
         ((\<exists>k. seek_replies w !! k = None) \<longrightarrow> Start_body pr maxOffset w \<noteq> None) \<and>
         (\<not> accepts w (readerConfig pr) \<longrightarrow>
            Start_body pr maxOffset w =
              Some (Panics,
                    w\<lparr>fetch_replies := stl (fetch_replies w),
                      events := events w @
                        [Sleep (Millisecond * 200),
                         LogError ''reader broken, start to recover...'']
                        @ (case reader pr of None \<Rightarrow> [] | Some rc \<Rightarrow> [CloseReader rc])\<rparr>))"
proof (intro conjI impI)
  assume "accepts w (readerConfig pr) \<and> seek_replies w = map Some es @- None ## rest"
  then have a: "accepts w (readerConfig pr)"
    and s: "seek_replies w = map Some es @- None ## rest"
    by simp_all
  from Start_body_recovers [OF assms a s]
  show "Start_body pr maxOffset w =
              Some (Returns (pr\<lparr>reader := Some (readerConfig pr)\<rparr>, maxOffset),
                    w\<lparr>fetch_replies := stl (fetch_replies w), seek_replies := rest,
                      events := events w @ recovery_events pr (length es)\<rparr>)" .
next
  assume "accepts w (readerConfig pr) \<and> (\<forall>k. seek_replies w !! k \<noteq> None)"
  then have a: "accepts w (readerConfig pr)"
    and never: "\<forall>k. seek_replies w !! k \<noteq> None"
    by simp_all
  show "Start_body pr maxOffset w = None"
  proof (rule ccontr)
    assume "Start_body pr maxOffset w \<noteq> None"
    then obtain x where "Start_body pr maxOffset w = Some x" by blast
    from Start_body_failed_shape [OF assms this a] obtain es' rest'
      where "seek_replies w = map Some es' @- None ## rest'" by blast
    then have "seek_replies w !! length es' = None" by simp
    with never show False by blast
  qed
next
  assume "\<exists>k. seek_replies w !! k = None"
  then obtain k where "seek_replies w !! k = None" ..
  from first_success_shape [OF this] obtain es' rest'
    where s: "seek_replies w = map Some es' @- None ## rest'" by blast
  show "Start_body pr maxOffset w \<noteq> None"
  proof (cases "accepts w (readerConfig pr)")
    case True
    from Start_body_recovers [OF assms True s, of maxOffset] show ?thesis by simp
  next
    case False
    from Start_body_panics [OF assms False, of maxOffset] show ?thesis by simp
  qed
next
  assume "\<not> accepts w (readerConfig pr)"
  from Start_body_panics [OF assms this]
  show "Start_body pr maxOffset w =
              Some (Panics,
                    w\<lparr>fetch_replies := stl (fetch_replies w),
                      events := events w @
                        [Sleep (Millisecond * 200),
                         LogError ''reader broken, start to recover...'']
                        @ (case reader pr of None \<Rightarrow> [] | Some rc \<Rightarrow> [CloseReader rc])\<rparr>)" .
qed

theorem Start_body_recovers_until_connected_witness:
  "shd (fetch_replies world_broken) = Inl ''broken pipe'' \<and>
   accepts world_broken (readerConfig example_worker) \<and>
   seek_replies world_broken = map Some [''dial tcp: connection refused''] @- None ## sconst None \<and>
   seek_replies world_broken !! 1 = None \<and>
   Start_body example_worker 5 world_broken =
     Some (Returns (example_worker, 5),
           world_broken\<lparr>fetch_replies := [Inr (msg_at 3), Inr (msg_at 5), Inr (msg_at 9)]
                                           @- sconst (Inl ''EOF''),
             seek_replies := sconst None,
             events := recovery_events example_worker 1\<rparr>) \<and>
   recovery_events example_worker 1 =
     [Sleep 200000000, LogError ''reader broken, start to recover...'',
      CloseReader (readerConfig example_worker),
      NewReader (readerConfig example_worker), SetOffset LastOffset,
      LogError ''recover failed'', Sleep 3000000000,
      NewReader (readerConfig example_worker), SetOffset LastOffset] \<and>
   shd (fetch_replies world_down) = Inl ''broken pipe'' \<and>
   accepts world_down (readerConfig example_worker) \<and>
   (\<forall>k. seek_replies world_down !! k \<noteq> None) \<and>
   Start_body example_worker 5 world_down = None \<and>
   \<not> accepts world_broken (readerConfig example_worker_2s) \<and>
   Start_body example_worker_2s 5 world_broken =
     Some (Panics,
           world_broken\<lparr>fetch_replies := [Inr (msg_at 3), Inr (msg_at 5), Inr (msg_at 9)]
                                           @- sconst (Inl ''EOF''),
             events := [Sleep 200000000, LogError ''reader broken, start to recover...'',
                        CloseReader (readerConfig example_worker)]\<rparr>)"
proof -
  have f: "shd (fetch_replies world_broken) = Inl ''broken pipe''"
    by (simp add: world_broken_def)
  note a = example_worker_accepted(1)
  have s: "seek_replies world_broken = map Some [''dial tcp: connection refused''] @- None ## sconst None"
    by (simp add: world_broken_def) (subst siterate.ctr, simp)
  have k: "seek_replies world_broken !! 1 = None"
    by (simp add: world_broken_def)
  have r: "example_worker\<lparr>reader := Some (readerConfig example_worker)\<rparr> = example_worker"
    by (simp add: example_worker_def readerConfig_def example_fields_def example_partition_def)
  have ev: "recovery_events example_worker 1 =
     [Sleep 200000000, LogError ''reader broken, start to recover...'',
      CloseReader (readerConfig example_worker),
      NewReader (readerConfig example_worker), SetOffset LastOffset,
      LogError ''recover failed'', Sleep 3000000000,
      NewReader (readerConfig example_worker), SetOffset LastOffset]"
    by (simp add: recovery_events_def failed_attempt_def Millisecond_def Second_def
        example_worker_def readerConfig_def example_fields_def example_partition_def)
  have f': "shd (fetch_replies world_down) = Inl ''broken pipe''"
    by (simp add: world_down_def)
  note a' = example_worker_accepted(2)
  have never: "\<forall>k. seek_replies world_down !! k \<noteq> None"
    by (simp add: world_down_def)
  have rej: "\<not> accepts world_broken (readerConfig example_worker_2s)"
    by (simp add: world_broken_def example_accepts_def readerConfig_def example_worker_2s_def
        example_worker_def example_fields_def example_partition_def Second_def Millisecond_def)
  have cl: "reader example_worker_2s = Some (readerConfig example_worker)"
    by (simp add: example_worker_2s_def example_worker_def readerConfig_def example_fields_def
        example_partition_def)
  from Start_body_recovers_until_connected
         [OF f, of example_worker "[''dial tcp: connection refused'']" "sconst None" 5] a s r
  have b: "Start_body example_worker 5 world_broken =
     Some (Returns (example_worker, 5),
           world_broken\<lparr>fetch_replies := [Inr (msg_at 3), Inr (msg_at 5), Inr (msg_at 9)]
                                           @- sconst (Inl ''EOF''),
             seek_replies := sconst None,
             events := recovery_events example_worker 1\<rparr>)"
    by (simp add: world_broken_def)
  from Start_body_recovers_until_connected [OF f', of example_worker _ _ 5] a' never
  have d: "Start_body example_worker 5 world_down = None"
    by blast
  from Start_body_recovers_until_connected [OF f, of example_worker_2s _ _ 5] rej cl
  have p: "Start_body example_worker_2s 5 world_broken =
     Some (Panics,
           world_broken\<lparr>fetch_replies := [Inr (msg_at 3), Inr (msg_at 5), Inr (msg_at 9)]
                                           @- sconst (Inl ''EOF''),
             events := [Sleep 200000000, LogError ''reader broken, start to recover...'',
                        CloseReader (readerConfig example_worker)]\<rparr>)"
    by (simp add: world_broken_def Millisecond_def)
  from f a s k b ev f' a' never d rej p show ?thesis by blast
qed

section \<open>Partition lookup: properties and claim\<close>

lemma lookupPartitions_eq:
  "lookupPartitions addr tp w =
     (shd (lookup_replies w),
      w\<lparr>lookup_replies := stl (lookup_replies w),
        events := events w @ [Lookup (3 * Second) ''tcp'' addr tp]\<rparr>)"
  by (simp add: lookupPartitions_def kafka_LookupPartitions_def emit_def)

lemma LookupPartitions_success:
  "lookup_replies w = map Inl es @- Inr ps ## rest \<Longrightarrow> length es < length bs \<Longrightarrow>
   LookupPartitions bs tp w =
     (Inr ps,
      w\<lparr>lookup_replies := rest,
        events := events w @ concat (map (failed_lookup tp) (take (length es) bs))
                    @ [Lookup (3 * Second) ''tcp'' (bs ! length es) tp]\<rparr>)"
proof (induction es arbitrary: bs w)
  case Nil
  then obtain b bs' where "bs = b # bs'" by (cases bs) auto
  with Nil show ?case by (simp add: lookupPartitions_eq)
next
  case (Cons e es)
  then obtain b bs' where bs: "bs = b # bs'" by (cases bs) auto
  let ?w1 = "log_Error ''lookupPartions failed''
      (w\<lparr>lookup_replies := stl (lookup_replies w),
        events := events w @ [Lookup (3 * Second) ''tcp'' b tp]\<rparr>)"
  have r: "lookup_replies ?w1 = map Inl es @- Inr ps ## rest"
    using Cons.prems(1) by (simp add: log_Error_def emit_def)
  have l: "length es < length bs'"
    using Cons.prems(2) bs by simp
  have "LookupPartitions bs tp w = LookupPartitions bs' tp ?w1"
    using Cons.prems(1) bs by (simp add: lookupPartitions_eq)
  also note Cons.IH [OF r l]
  finally show ?case
    using bs by (simp add: log_Error_def emit_def failed_lookup_def)
qed

lemma LookupPartitions_all_fail:
  "lookup_replies w = map Inl es @- rest \<Longrightarrow> length es = length bs \<Longrightarrow>
   LookupPartitions bs tp w =
     (Inl ErrNonePartionFound,
      w\<lparr>lookup_replies := rest,
        events := events w @ concat (map (failed_lookup tp) bs)\<rparr>)"
proof (induction bs arbitrary: es w)
  case Nil
  then show ?case by simp
next
  case (Cons b bs)
  then obtain e es' where es: "es = e # es'" by (cases es) auto
  let ?w1 = "log_Error ''lookupPartions failed''
      (w\<lparr>lookup_replies := stl (lookup_replies w),
        events := events w @ [Lookup (3 * Second) ''tcp'' b tp]\<rparr>)"
  have r: "lookup_replies ?w1 = map Inl es' @- rest"
    using Cons.prems(1) es by (simp add: log_Error_def emit_def)
  have l: "length es' = length bs"
    using Cons.prems(2) es by simp
  have "LookupPartitions (b # bs) tp w = LookupPartitions bs tp ?w1"
    using Cons.prems(1) es by (simp add: lookupPartitions_eq)
  also note Cons.IH [OF r l]
  finally show ?case
    by (simp add: log_Error_def emit_def failed_lookup_def)
qed

lemma lookups_append: "lookups (xs @ ys) = lookups xs @ lookups ys"
  by (induction xs rule: lookups.induct) simp_all

lemma lookups_failed:
  "lookups (concat (map (failed_lookup tp) bs)) = map (\<lambda>a. (3 * Second, ''tcp'', a, tp)) bs"
  by (induction bs) (simp_all add: failed_lookup_def)

lemma LookupPartitions_error:
  "LookupPartitions bs tp w = (Inl e, w1) \<Longrightarrow> e = ErrNonePartionFound"
  by (induction bs arbitrary: w) (auto split: prod.splits sum.splits)

lemma LookupPartitions_accepts:
  "LookupPartitions bs tp w = (res, w1) \<Longrightarrow> accepts w1 = accepts w"
  by (induction bs arbitrary: w)
     (auto simp: lookupPartitions_eq log_Error_def emit_def split: prod.splits sum.splits)

lemma LookupPartitions_seek_replies:
  "LookupPartitions bs tp w = (res, w1) \<Longrightarrow> seek_replies w1 = seek_replies w"
  by (induction bs arbitrary: w)
     (auto simp: lookupPartitions_eq log_Error_def emit_def split: prod.splits sum.splits)

text \<open>
  C4. \<open>LookupPartitions\<close> queries the addresses in the order given, each one alone, over
  \<open>tcp\<close> with a timeout of 3 s. If the first \<open>length es\<close> addresses fail and the next one
  answers, it returns the partition list of that answer, and the lookups made are exactly
  those of the addresses up to and including the one that answered: no later address is
  queried. If all the addresses fail it returns no partitions and the one error
  \<open>ErrNonePartionFound\<close>, "none partition found"; the errors of the addresses are only
  logged.
\<close>

theorem LookupPartitions_first_responsive_broker:
  "(lookup_replies w = map Inl es @- Inr ps ## rest \<and> length es < length addrs \<longrightarrow>
      LookupPartitions addrs tp w =
        (Inr ps,
         w\<lparr>lookup_replies := rest,
           events := events w @ concat (map (failed_lookup tp) (take (length es) addrs))
                       @ [Lookup (3 * Second) ''tcp'' (addrs ! length es) tp]\<rparr>) \<and>
      lookups (concat (map (failed_lookup tp) (take (length es) addrs))
                 @ [Lookup (3 * Second) ''tcp'' (addrs ! length es) tp]) =
        map (\<lambda>a. (3000000000, ''tcp'', a, tp)) (take (Suc (length es)) addrs)) \<and>
   (lookup_replies w = map Inl es @- rest \<and> length es = length addrs \<longrightarrow>
      LookupPartitions addrs tp w =
        (Inl ErrNonePartionFound,
         w\<lparr>lookup_replies := rest,
           events := events w @ concat (map (failed_lookup tp) addrs)\<rparr>) \<and>
      lookups (concat (map (failed_lookup tp) addrs)) =
        map (\<lambda>a. (3000000000, ''tcp'', a, tp)) addrs \<and>
      error_text ErrNonePartionFound = ''none partition found'')"
proof (intro conjI impI)
  assume a: "lookup_replies w = map Inl es @- Inr ps ## rest \<and> length es < length addrs"
  then show "LookupPartitions addrs tp w =
        (Inr ps,
         w\<lparr>lookup_replies := rest,
           events := events w @ concat (map (failed_lookup tp) (take (length es) addrs))
                       @ [Lookup (3 * Second) ''tcp'' (addrs ! length es) tp]\<rparr>)"
    by (simp add: LookupPartitions_success)
  from a show "lookups (concat (map (failed_lookup tp) (take (length es) addrs))
                 @ [Lookup (3 * Second) ''tcp'' (addrs ! length es) tp]) =
        map (\<lambda>a. (3000000000, ''tcp'', a, tp)) (take (Suc (length es)) addrs)"
    by (simp add: lookups_append lookups_failed take_Suc_conv_app_nth Second_def Millisecond_def)
next
  assume a: "lookup_replies w = map Inl es @- rest \<and> length es = length addrs"
  then show "LookupPartitions addrs tp w =
        (Inl ErrNonePartionFound,
         w\<lparr>lookup_replies := rest,
           events := events w @ concat (map (failed_lookup tp) addrs)\<rparr>)"
    by (simp add: LookupPartitions_all_fail)
  show "lookups (concat (map (failed_lookup tp) addrs)) =
        map (\<lambda>a. (3000000000, ''tcp'', a, tp)) addrs"
    by (simp add: lookups_failed Second_def Millisecond_def)
  show "error_text ErrNonePartionFound = ''none partition found''"
    by simp
qed

theorem LookupPartitions_first_responsive_broker_witness:
  "LookupPartitions [''A'', ''B'', ''C''] ''orders'' world_ABC =
     (Inr [example_partition],
      world_ABC\<lparr>lookup_replies := sconst (Inl ''unused''),
        events := [Lookup 3000000000 ''tcp'' ''A'' ''orders'', LogError ''lookupPartions failed'',
                   Lookup 3000000000 ''tcp'' ''B'' ''orders'']\<rparr>) \<and>
   LookupPartitions [''A'', ''B'', ''C''] ''orders'' world_unreachable =
     (Inl ErrNonePartionFound,
      world_unreachable\<lparr>
        events := [Lookup 3000000000 ''tcp'' ''A'' ''orders'', LogError ''lookupPartions failed'',
                   Lookup 3000000000 ''tcp'' ''B'' ''orders'', LogError ''lookupPartions failed'',
                   Lookup 3000000000 ''tcp'' ''C'' ''orders'', LogError ''lookupPartions failed'']\<rparr>)"
proof -
  have a: "lookup_replies world_ABC =
             map Inl [''i/o timeout''] @- Inr [example_partition] ## sconst (Inl ''unused'') \<and>
           length [''i/o timeout''] < length [''A'', ''B'', ''C'']"
    by (simp add: world_ABC_def)
  have u: "lookup_replies world_unreachable =
             map Inl [''i/o timeout'', ''i/o timeout'', ''i/o timeout''] @- sconst (Inl ''i/o timeout'') \<and>
           length [''i/o timeout'', ''i/o timeout'', ''i/o timeout''] = length [''A'', ''B'', ''C'']"
    by (simp add: world_unreachable_def) (subst siterate.ctr, simp)+
  from LookupPartitions_first_responsive_broker
         [of world_ABC "[''i/o timeout'']" "[example_partition]" "sconst (Inl ''unused'')"
             "[''A'', ''B'', ''C'']" "''orders''"] a
  have 1: "LookupPartitions [''A'', ''B'', ''C''] ''orders'' world_ABC =
     (Inr [example_partition],
      world_ABC\<lparr>lookup_replies := sconst (Inl ''unused''),
        events := [Lookup 3000000000 ''tcp'' ''A'' ''orders'', LogError ''lookupPartions failed'',
                   Lookup 3000000000 ''tcp'' ''B'' ''orders'']\<rparr>)"
    by (simp add: failed_lookup_def Second_def Millisecond_def world_ABC_def)
  from LookupPartitions_first_responsive_broker
         [of world_unreachable "[''i/o timeout'', ''i/o timeout'', ''i/o timeout'']" _
             "sconst (Inl ''i/o timeout'')" "[''A'', ''B'', ''C'']" "''orders''"] u
  have 2: "LookupPartitions [''A'', ''B'', ''C''] ''orders'' world_unreachable =
     (Inl ErrNonePartionFound,
      world_unreachable\<lparr>
        events := [Lookup 3000000000 ''tcp'' ''A'' ''orders'', LogError ''lookupPartions failed'',
                   Lookup 3000000000 ''tcp'' ''B'' ''orders'', LogError ''lookupPartions failed'',
                   Lookup 3000000000 ''tcp'' ''C'' ''orders'', LogError ''lookupPartions failed'']\<rparr>)"
    by (simp add: failed_lookup_def Second_def Millisecond_def world_unreachable_def)
  from 1 2 show ?thesis by blast
qed

section \<open>The supervisor: properties and claims\<close>

lemma readerConfig_new_worker:
  "readerConfig (new_worker r p) = readerConfig \<lparr>parent = r, reader = None, partition = p\<rparr>"
  by (simp add: new_worker_def readerConfig_def)

lemma NewPartitionReader_eq:
  "accepts w (readerConfig (new_worker r p)) \<Longrightarrow>
   NewPartitionReader r p w =
     (Returns (new_worker r p, shd (seek_replies w)),
      w\<lparr>seek_replies := stl (seek_replies w), events := events w @ open_events r p\<rparr>)"
  by (simp add: NewPartitionReader_def createReader_eq readerConfig_new_worker open_events_def)
     (simp add: new_worker_def)

lemma NewPartitionReader_panics:
  "\<not> accepts w (readerConfig (new_worker r p)) \<Longrightarrow> NewPartitionReader r p w = (Panics, w)"
  by (simp add: NewPartitionReader_def createReader_panics readerConfig_new_worker)

lemma truncate_readers [simp]:
  "ReaderFields.truncate (r\<lparr>readers := x\<rparr>) = ReaderFields.truncate r"
  by (simp add: ReaderFields.truncate_def)

lemma CreateReader_loop_all:
  "seek_replies w = replicate (length ps) None @- rest \<Longrightarrow>
   \<forall>p\<in>set ps. accepts w (readerConfig (new_worker (ReaderFields.truncate r) p)) \<Longrightarrow>
   CreateReader_loop r ps w =
     (Returns (Inr (r\<lparr>readers := readers r @ map (new_worker (ReaderFields.truncate r)) ps\<rparr>)),
      w\<lparr>seek_replies := rest,
        events := events w @ concat (map (open_events (ReaderFields.truncate r)) ps)\<rparr>)"
proof (induction ps arbitrary: r w)
  case Nil
  then show ?case by simp
next
  case (Cons p ps)
  let ?r1 = "r\<lparr>readers := readers r @ [new_worker (ReaderFields.truncate r) p]\<rparr>"
  let ?w1 = "w\<lparr>seek_replies := stl (seek_replies w),
               events := events w @ open_events (ReaderFields.truncate r) p\<rparr>"
  have a: "accepts w (readerConfig (new_worker (ReaderFields.truncate r) p))"
    using Cons.prems(2) by simp
  have s: "seek_replies ?w1 = replicate (length ps) None @- rest"
    using Cons.prems(1) by simp
  have as: "\<forall>p\<in>set ps. accepts ?w1 (readerConfig (new_worker (ReaderFields.truncate ?r1) p))"
    using Cons.prems(2) by simp
  have "CreateReader_loop r (p # ps) w = CreateReader_loop ?r1 ps ?w1"
    using Cons.prems(1) a by (simp add: NewPartitionReader_eq)
  also note Cons.IH [OF s as]
  finally show ?case by simp
qed

lemma CreateReader_loop_fail:
  "seek_replies w = replicate k None @- Some e ## rest \<Longrightarrow> k < length ps \<Longrightarrow>
   \<forall>p\<in>set (take (Suc k) ps). accepts w (readerConfig (new_worker (ReaderFields.truncate r) p)) \<Longrightarrow>
   fst (CreateReader_loop r ps w) = Returns (Inl (KafkaError e))"
proof (induction ps arbitrary: k r w)
  case Nil
  then show ?case by simp
next
  case (Cons p ps)
  have a: "accepts w (readerConfig (new_worker (ReaderFields.truncate r) p))"
    using Cons.prems(3) by simp
  show ?case
  proof (cases k)
    case 0
    with Cons.prems(1) a show ?thesis by (simp add: NewPartitionReader_eq)
  next
    case (Suc j)
    let ?r1 = "r\<lparr>readers := readers r @ [new_worker (ReaderFields.truncate r) p]\<rparr>"
    let ?w1 = "w\<lparr>seek_replies := stl (seek_replies w),
               events := events w @ open_events (ReaderFields.truncate r) p\<rparr>"
    have s: "seek_replies ?w1 = replicate j None @- Some e ## rest"
      using Cons.prems(1) Suc by simp
    have l: "j < length ps"
      using Cons.prems(2) Suc by simp
    have as: "\<forall>p\<in>set (take (Suc j) ps).
                accepts ?w1 (readerConfig (new_worker (ReaderFields.truncate ?r1) p))"
      using Cons.prems(3) Suc by simp
    have "CreateReader_loop r (p # ps) w = CreateReader_loop ?r1 ps ?w1"
      using Cons.prems(1) Suc a by (simp add: NewPartitionReader_eq)
    with Cons.IH [OF s l as] show ?thesis by simp
  qed
qed

lemma CreateReader_loop_panics:
  "seek_replies w = replicate k None @- rest \<Longrightarrow> k < length ps \<Longrightarrow>
   \<forall>p\<in>set (take k ps). accepts w (readerConfig (new_worker (ReaderFields.truncate r) p)) \<Longrightarrow>
   \<not> accepts w (readerConfig (new_worker (ReaderFields.truncate r) (ps ! k))) \<Longrightarrow>
   fst (CreateReader_loop r ps w) = Panics"
proof (induction ps arbitrary: k r w rest)
  case Nil
  then show ?case by simp
next
  case (Cons p ps)
  show ?case
  proof (cases k)
    case 0
    with Cons.prems(4) show ?thesis by (simp add: NewPartitionReader_panics)
  next
    case (Suc j)
    let ?r1 = "r\<lparr>readers := readers r @ [new_worker (ReaderFields.truncate r) p]\<rparr>"
    let ?w1 = "w\<lparr>seek_replies := stl (seek_replies w),
               events := events w @ open_events (ReaderFields.truncate r) p\<rparr>"
    have a: "accepts w (readerConfig (new_worker (ReaderFields.truncate r) p))"
      using Cons.prems(3) Suc by simp
    have s: "seek_replies ?w1 = replicate j None @- rest"
      using Cons.prems(1) Suc by simp
    have l: "j < length ps"
      using Cons.prems(2) Suc by simp
    have as: "\<forall>p\<in>set (take j ps).
                accepts ?w1 (readerConfig (new_worker (ReaderFields.truncate ?r1) p))"
      using Cons.prems(3) Suc by simp
    have n: "\<not> accepts ?w1 (readerConfig (new_worker (ReaderFields.truncate ?r1) (ps ! j)))"
      using Cons.prems(4) Suc by simp
    have "CreateReader_loop r (p # ps) w = CreateReader_loop ?r1 ps ?w1"
      using Cons.prems(1) Suc a by (simp add: NewPartitionReader_eq)
    with Cons.IH [OF s l as n] show ?thesis by simp
  qed
qed

lemma CreateReader_loop_error:
  "CreateReader_loop r ps w = (Returns (Inl e), w1) \<Longrightarrow> \<exists>s. e = KafkaError s"
proof (induction ps arbitrary: r w)
  case Nil
  then show ?case by simp
next
  case (Cons p ps)
  show ?case
  proof (cases "accepts w (readerConfig (new_worker (ReaderFields.truncate r) p))")
    case True
    with Cons show ?thesis
      by (auto simp: NewPartitionReader_eq split: option.splits)
  next
    case False
    with Cons.prems show ?thesis
      by (simp add: NewPartitionReader_panics)
  qed
qed

lemma CreateReader_loop_fields:
  "CreateReader_loop r ps w = (Returns (Inr r1), w1) \<Longrightarrow>
   ReaderFields.truncate r1 = ReaderFields.truncate r"
proof (induction ps arbitrary: r w)
  case Nil
  then show ?case by simp
next
  case (Cons p ps)
  show ?case
  proof (cases "accepts w (readerConfig (new_worker (ReaderFields.truncate r) p))")
    case True
    with Cons show ?thesis
      by (auto simp: NewPartitionReader_eq split: option.splits)
  next
    case False
    with Cons.prems show ?thesis
      by (simp add: NewPartitionReader_panics)
  qed
qed

lemma CreateReader_loop_accepted:
  "CreateReader_loop r ps w = (Returns (Inr r1), w1) \<Longrightarrow>
   \<forall>pr\<in>set (readers r). accepts w (readerConfig pr) \<Longrightarrow>
   \<forall>pr\<in>set (readers r1). accepts w (readerConfig pr)"
proof (induction ps arbitrary: r w)
  case Nil
  then show ?case by simp
next
  case (Cons p ps)
  show ?case
  proof (cases "accepts w (readerConfig (new_worker (ReaderFields.truncate r) p))")
    case True
    let ?r1 = "r\<lparr>readers := readers r @ [new_worker (ReaderFields.truncate r) p]\<rparr>"
    let ?w1 = "w\<lparr>seek_replies := stl (seek_replies w),
               events := events w @ open_events (ReaderFields.truncate r) p\<rparr>"
    from Cons.prems(1) True have l: "CreateReader_loop ?r1 ps ?w1 = (Returns (Inr r1), w1)"
      by (auto simp: NewPartitionReader_eq split: option.splits)
    have "\<forall>pr\<in>set (readers ?r1). accepts ?w1 (readerConfig pr)"
      using Cons.prems(2) True by simp
    from Cons.IH [OF l this] show ?thesis by simp
  next
    case False
    with Cons.prems show ?thesis
      by (simp add: NewPartitionReader_panics)
  qed
qed

lemma CreateReader_defaults_frame [simp]:
  "Name (CreateReader_defaults cfg) = Name cfg"
  "Brokers (CreateReader_defaults cfg) = Brokers cfg"
  "Topic (CreateReader_defaults cfg) = Topic cfg"
  "Handler (CreateReader_defaults cfg) = Handler cfg"
  by (simp_all add: CreateReader_defaults_def Let_def)

lemma CreateReader_valid:
  assumes "Brokers cfg \<noteq> []" and "Topic cfg \<noteq> []" and "Handler cfg \<noteq> None"
  shows "CreateReader cfg w =
     (let cfg1 = CreateReader_defaults cfg in
      case LookupPartitions (Brokers cfg) (Topic cfg) w of
        (Inl err, w1) \<Rightarrow> ((cfg1, Returns (Inl err)), log_Error ''failed look partions'' w1)
      | (Inr ps, w1) \<Rightarrow>
          (let r = \<lparr>handleEvent = Handler cfg, topic = Topic cfg, brokers = Brokers cfg,
                    minBytes = MinBytes cfg1, maxBytes = MaxBytes cfg1, partitions = ps,
                    readBackoffMin = ReadBackoffMin cfg1,
                    readers = [], status = False, closing = False\<rparr>;
               (res, w2) = CreateReader_loop r ps w1
           in ((cfg1, res), w2)))"
  using assms by (auto simp: CreateReader_def Let_def split: prod.splits sum.splits)

lemma CreateReader_cfg:
  assumes "Brokers cfg \<noteq> []" and "Topic cfg \<noteq> []" and "Handler cfg \<noteq> None"
  shows "fst (fst (CreateReader cfg w)) = CreateReader_defaults cfg"
  unfolding CreateReader_valid [OF assms]
  by (simp add: Let_def split: prod.splits sum.splits)

lemma CreateReader_invalid:
  "Brokers cfg = [] \<Longrightarrow> CreateReader cfg w = ((cfg, Returns (Inl ErrNoBrokers)), w)"
  "Brokers cfg \<noteq> [] \<Longrightarrow> Topic cfg = [] \<Longrightarrow>
     CreateReader cfg w = ((cfg, Returns (Inl ErrNoTopic)), w)"
  "Brokers cfg \<noteq> [] \<Longrightarrow> Topic cfg \<noteq> [] \<Longrightarrow> Handler cfg = None \<Longrightarrow>
     CreateReader cfg w = ((cfg, Returns (Inl ErrNoHandler)), w)"
  by (simp_all add: CreateReader_def)

lemma CreateReader_valid_error:
  assumes "Brokers cfg \<noteq> []" and "Topic cfg \<noteq> []" and "Handler cfg \<noteq> None"
    and "snd (fst (CreateReader cfg w)) = Returns (Inl e)"
  shows "\<not> config_error e"
proof (cases "LookupPartitions (Brokers cfg) (Topic cfg) w")
  case (Pair res w1)
  show ?thesis
  proof (cases res)
    case (Inl err)
    with Pair have "err = ErrNonePartionFound"
      by (simp add: LookupPartitions_error)
    with assms(4) Pair Inl show ?thesis
      unfolding CreateReader_valid [OF assms(1-3)] by (simp add: Let_def)
  next
    case (Inr ps)
    with assms(4) Pair obtain r w2 where "CreateReader_loop r ps w1 = (Returns (Inl e), w2)"
      unfolding CreateReader_valid [OF assms(1-3)]
      by (auto simp: Let_def split: prod.splits)
    from CreateReader_loop_error [OF this] show ?thesis by auto
  qed
qed

lemma CreateReader_returns_supervisor:
  assumes "snd (fst (CreateReader cfg w)) = Returns (Inr r)"
  shows "\<exists>ps w1 w2.
     LookupPartitions (Brokers cfg) (Topic cfg) w = (Inr ps, w1) \<and>
     CreateReader_loop
       \<lparr>handleEvent = Handler cfg, topic = Topic cfg, brokers = Brokers cfg,
        minBytes = MinBytes (CreateReader_defaults cfg),
        maxBytes = MaxBytes (CreateReader_defaults cfg), partitions = ps,
        readBackoffMin = ReadBackoffMin (CreateReader_defaults cfg),
        readers = [], status = False, closing = False\<rparr> ps w1 = (Returns (Inr r), w2)"
proof -
  from assms have v: "Brokers cfg \<noteq> []" "Topic cfg \<noteq> []" "Handler cfg \<noteq> None"
    by (auto simp: CreateReader_def split: if_splits)
  from assms show ?thesis
    unfolding CreateReader_valid [OF v]
    by (auto simp: Let_def split: prod.splits sum.splits)
qed

lemma CreateReader_fields:
  assumes "snd (fst (CreateReader cfg w)) = Returns (Inr r)"
  shows "minBytes r = MinBytes (CreateReader_defaults cfg) \<and>
         maxBytes r = MaxBytes (CreateReader_defaults cfg) \<and>
         readBackoffMin r = ReadBackoffMin (CreateReader_defaults cfg)"
proof -
  from CreateReader_returns_supervisor [OF assms] obtain ps w1 w2 r0
    where l: "CreateReader_loop r0 ps w1 = (Returns (Inr r), w2)"
    and r0: "minBytes r0 = MinBytes (CreateReader_defaults cfg)"
      "maxBytes r0 = MaxBytes (CreateReader_defaults cfg)"
      "readBackoffMin r0 = ReadBackoffMin (CreateReader_defaults cfg)"
    by fastforce
  from CreateReader_loop_fields [OF l]
  have "minBytes r = minBytes r0" "maxBytes r = maxBytes r0" "readBackoffMin r = readBackoffMin r0"
    by (simp_all add: ReaderFields.truncate_def)
  with r0 show ?thesis by simp
qed

text \<open>
  The client has accepted the reader configuration of every worker of a supervisor that
  \<open>CreateReader\<close> returned.
\<close>

lemma CreateReader_workers_accepted:
  assumes "snd (fst (CreateReader cfg w)) = Returns (Inr r)"
  shows "\<forall>pr\<in>set (readers r). accepts w (readerConfig pr)"
proof -
  from CreateReader_returns_supervisor [OF assms] obtain ps w1 w2 r0
    where lk: "LookupPartitions (Brokers cfg) (Topic cfg) w = (Inr ps, w1)"
    and l: "CreateReader_loop r0 ps w1 = (Returns (Inr r), w2)"
    and r0: "readers r0 = []"
    by fastforce
  from CreateReader_loop_accepted [OF l] r0
  have "\<forall>pr\<in>set (readers r). accepts w1 (readerConfig pr)"
    by simp
  with LookupPartitions_accepts [OF lk] show ?thesis by simp
qed

text \<open>
  C3. \<open>CreateReader\<close> fails with a configuration error (one of \<open>ErrNoBrokers\<close>,
  \<open>ErrNoTopic\<close>, \<open>ErrNoHandler\<close>) exactly when the broker list is empty, the topic is
  empty or the handler is nil, whatever the other fields and the brokers' replies are.
  The checks are made in this order and the first that fails gives the error: "no brokers"
  exactly when the broker list is empty, "no topic" exactly when the list is not empty and
  the topic is, "no handler" exactly when list and topic are not empty and the handler is
  nil.
\<close>

theorem CreateReader_configuration_errors:
  "((\<exists>e. snd (fst (CreateReader cfg w)) = Returns (Inl e) \<and> config_error e) \<longleftrightarrow>
      (Brokers cfg = [] \<or> Topic cfg = [] \<or> Handler cfg = None)) \<and>
   (snd (fst (CreateReader cfg w)) = Returns (Inl ErrNoBrokers) \<longleftrightarrow> Brokers cfg = []) \<and>
   (snd (fst (CreateReader cfg w)) = Returns (Inl ErrNoTopic) \<longleftrightarrow> Brokers cfg \<noteq> [] \<and> Topic cfg = []) \<and>
   (snd (fst (CreateReader cfg w)) = Returns (Inl ErrNoHandler) \<longleftrightarrow>
      Brokers cfg \<noteq> [] \<and> Topic cfg \<noteq> [] \<and> Handler cfg = None) \<and>
   error_text ErrNoBrokers = ''no brokers'' \<and> error_text ErrNoTopic = ''no topic'' \<and>
   error_text ErrNoHandler = ''no handler''"
proof -
  consider (b) "Brokers cfg = []" | (t) "Brokers cfg \<noteq> []" "Topic cfg = []"
    | (h) "Brokers cfg \<noteq> []" "Topic cfg \<noteq> []" "Handler cfg = None"
    | (v) "Brokers cfg \<noteq> []" "Topic cfg \<noteq> []" "Handler cfg \<noteq> None"
    by blast
  then show ?thesis
  proof cases
    case b
    then show ?thesis by (simp add: CreateReader_invalid)
  next
    case t
    then show ?thesis by (simp add: CreateReader_invalid)
  next
    case h
    then show ?thesis by (simp add: CreateReader_invalid)
  next
    case v
    have "\<not> config_error e" if "snd (fst (CreateReader cfg w)) = Returns (Inl e)" for e
      using CreateReader_valid_error [OF v that] .
    with v show ?thesis
      by (metis config_error.simps(1,2,3) error_text.simps(1,2,3))
  qed
qed

lemma LookupPartitions_ABC:
  "LookupPartitions [''A'', ''B'', ''C''] ''orders'' world_ABC =
     (Inr [example_partition],
      world_ABC\<lparr>lookup_replies := sconst (Inl ''unused''),
        events := [Lookup 3000000000 ''tcp'' ''A'' ''orders'', LogError ''lookupPartions failed'',
                   Lookup 3000000000 ''tcp'' ''B'' ''orders'']\<rparr>)"
  by (simp add: lookupPartitions_eq log_Error_def emit_def world_ABC_def Second_def Millisecond_def)

lemma sint_consts [simp]:
  "sint MINBYTES = 512" "sint MAXBYTES = 4194304" "sint READBACKOFFMIN = 100000000"
  by (simp_all add: MINBYTES_def MAXBYTES_def READBACKOFFMIN_def Millisecond_def)

lemma CreateReader_defaults_eq:
  "CreateReader_defaults cfg =
     cfg\<lparr>MinBytes := (if sint (MinBytes cfg) \<le> 0 then 512 else MinBytes cfg),
         MaxBytes :=
           (let mn = (if sint (MinBytes cfg) \<le> 0 then 512 else MinBytes cfg);
                mx = (if sint (MaxBytes cfg) \<le> 0 then 4194304 else MaxBytes cfg)
            in if sint mx < sint mn then mn + 64 else mx),
         ReadBackoffMin :=
           (if sint (ReadBackoffMin cfg) \<le> 100000000 then 100000000
            else ReadBackoffMin cfg)\<rparr>"
  by (simp add: CreateReader_defaults_def Let_def MINBYTES_def MAXBYTES_def
      READBACKOFFMIN_def Millisecond_def)

lemma readerConfig_worker_config:
  "readerConfig (new_worker
      \<lparr>handleEvent = h, topic = Topic cfg, brokers = Brokers cfg,
       minBytes = MinBytes (CreateReader_defaults cfg),
       maxBytes = MaxBytes (CreateReader_defaults cfg), partitions = ps,
       readBackoffMin = ReadBackoffMin (CreateReader_defaults cfg)\<rparr> p) =
   worker_config cfg p"
  by (simp add: readerConfig_def new_worker_def worker_config_def)

lemma worker_config_accepted:
  "example_accepts (worker_config cfg p) \<longleftrightarrow>
     Brokers cfg \<noteq> [] \<and> Topic cfg \<noteq> [] \<and>
     0 \<le> sint (ID p) \<and> sint (ID p) < 2147483647 \<and>
     0 \<le> sint (MinBytes (CreateReader_defaults cfg)) \<and>
     0 \<le> sint (MaxBytes (CreateReader_defaults cfg)) \<and>
     sint (MinBytes (CreateReader_defaults cfg)) \<le> sint (MaxBytes (CreateReader_defaults cfg)) \<and>
     0 \<le> sint (ReadBackoffMin (CreateReader_defaults cfg)) \<and>
     sint (ReadBackoffMin (CreateReader_defaults cfg)) \<le> 1000000000"
  by (simp add: example_accepts_def worker_config_def Second_def Millisecond_def)

lemma CreateReader_example_ABC:
  assumes "Brokers cfg = [''A'', ''B'', ''C'']" and "Topic cfg = ''orders''"
    and "Handler cfg = Some h"
  shows "example_accepts (worker_config cfg example_partition) \<Longrightarrow>
   snd (fst (CreateReader cfg world_ABC)) =
     Returns (Inr \<lparr>handleEvent = Some h, topic = ''orders'', brokers = [''A'', ''B'', ''C''],
           minBytes = MinBytes (CreateReader_defaults cfg),
           maxBytes = MaxBytes (CreateReader_defaults cfg),
           partitions = [example_partition],
           readBackoffMin = ReadBackoffMin (CreateReader_defaults cfg),
           readers = [new_worker
              \<lparr>handleEvent = Some h, topic = ''orders'', brokers = [''A'', ''B'', ''C''],
               minBytes = MinBytes (CreateReader_defaults cfg),
               maxBytes = MaxBytes (CreateReader_defaults cfg),
               partitions = [example_partition],
               readBackoffMin = ReadBackoffMin (CreateReader_defaults cfg)\<rparr> example_partition],
           status = False, closing = False\<rparr>)"
    and "\<not> example_accepts (worker_config cfg example_partition) \<Longrightarrow>
   snd (fst (CreateReader cfg world_ABC)) = Panics"
proof -
  from assms have v: "Brokers cfg \<noteq> []" "Topic cfg \<noteq> []" "Handler cfg \<noteq> None"
    by simp_all
  have s: "seek_replies world_ABC = sconst None" and c: "accepts world_ABC = example_accepts"
    by (simp_all add: world_ABC_def)
  have rc: "readerConfig (new_worker
      \<lparr>handleEvent = Some h, topic = ''orders'', brokers = [''A'', ''B'', ''C''],
       minBytes = MinBytes (CreateReader_defaults cfg),
       maxBytes = MaxBytes (CreateReader_defaults cfg), partitions = [example_partition],
       readBackoffMin = ReadBackoffMin (CreateReader_defaults cfg)\<rparr> example_partition) =
     worker_config cfg example_partition"
    using readerConfig_worker_config [of "Some h" cfg "[example_partition]" example_partition]
    by (simp add: assms)
  {
    assume "example_accepts (worker_config cfg example_partition)"
    with rc show "snd (fst (CreateReader cfg world_ABC)) =
     Returns (Inr \<lparr>handleEvent = Some h, topic = ''orders'', brokers = [''A'', ''B'', ''C''],
           minBytes = MinBytes (CreateReader_defaults cfg),
           maxBytes = MaxBytes (CreateReader_defaults cfg),
           partitions = [example_partition],
           readBackoffMin = ReadBackoffMin (CreateReader_defaults cfg),
           readers = [new_worker
              \<lparr>handleEvent = Some h, topic = ''orders'', brokers = [''A'', ''B'', ''C''],
               minBytes = MinBytes (CreateReader_defaults cfg),
               maxBytes = MaxBytes (CreateReader_defaults cfg),
               partitions = [example_partition],
               readBackoffMin = ReadBackoffMin (CreateReader_defaults cfg)\<rparr> example_partition],
           status = False, closing = False\<rparr>)"
      unfolding CreateReader_valid [OF v]
      by (simp add: assms s c Let_def LookupPartitions_ABC NewPartitionReader_eq
          ReaderFields.truncate_def del: LookupPartitions.simps)
  next
    assume "\<not> example_accepts (worker_config cfg example_partition)"
    with rc show "snd (fst (CreateReader cfg world_ABC)) = Panics"
      unfolding CreateReader_valid [OF v]
      by (simp add: assms s c Let_def LookupPartitions_ABC NewPartitionReader_panics
          ReaderFields.truncate_def del: LookupPartitions.simps)
  }
qed

lemma example_config_valid:
  "Brokers example_config \<noteq> []" "Topic example_config \<noteq> []" "Handler example_config \<noteq> None"
  by (simp_all add: example_config_def)

lemma LookupPartitions_unreachable:
  "LookupPartitions [''A'', ''B'', ''C''] ''orders'' world_unreachable =
     (Inl ErrNonePartionFound,
      world_unreachable\<lparr>
        events := [Lookup 3000000000 ''tcp'' ''A'' ''orders'', LogError ''lookupPartions failed'',
                   Lookup 3000000000 ''tcp'' ''B'' ''orders'', LogError ''lookupPartions failed'',
                   Lookup 3000000000 ''tcp'' ''C'' ''orders'', LogError ''lookupPartions failed'']\<rparr>)"
  by (simp add: lookupPartitions_eq log_Error_def emit_def world_unreachable_def
      Second_def Millisecond_def)

lemma LookupPartitions_seek_fails:
  "LookupPartitions [''A'', ''B'', ''C''] ''orders'' world_seek_fails =
     (Inr [\<lparr>ID = 0, Leader = ''A''\<rparr>, \<lparr>ID = 1, Leader = ''B''\<rparr>],
      world_seek_fails\<lparr>events := [Lookup 3000000000 ''tcp'' ''A'' ''orders'']\<rparr>)"
  by (simp add: lookupPartitions_eq log_Error_def emit_def world_seek_fails_def
      Second_def Millisecond_def)

text \<open>
  C10. \<open>CreateReader\<close> writes to the caller's \<open>Config\<close>. Once the three checks have
  passed, and whether or not the lookup and the workers' connections succeed afterwards,
  the caller's \<open>MinBytes\<close>, \<open>MaxBytes\<close> and \<open>ReadBackoffMin\<close> hold the values after
  defaults and clamping, and the other fields are as before. A negative \<open>MinBytes\<close> is
  treated as an unset one and becomes 512; a negative \<open>MaxBytes\<close> is treated as an unset
  one, and becomes 4194304 wherever the clamp to the minimum does not apply.
\<close>

theorem CreateReader_writes_Config:
  assumes "Brokers cfg \<noteq> []" and "Topic cfg \<noteq> []" and "Handler cfg \<noteq> None"
  shows "fst (fst (CreateReader cfg w)) =
     cfg\<lparr>MinBytes := (if sint (MinBytes cfg) \<le> 0 then 512 else MinBytes cfg),
         MaxBytes :=
           (let mn = (if sint (MinBytes cfg) \<le> 0 then 512 else MinBytes cfg);
                mx = (if sint (MaxBytes cfg) \<le> 0 then 4194304 else MaxBytes cfg)
            in if sint mx < sint mn then mn + 64 else mx),
         ReadBackoffMin :=
           (if sint (ReadBackoffMin cfg) \<le> 100000000 then 100000000
            else ReadBackoffMin cfg)\<rparr> \<and>
    (sint (MinBytes cfg) < 0 \<longrightarrow>
       MinBytes (fst (fst (CreateReader cfg w))) = 512 \<and>
       fst (fst (CreateReader cfg w)) = fst (fst (CreateReader (cfg\<lparr>MinBytes := 0\<rparr>) w))) \<and>
    (sint (MaxBytes cfg) < 0 \<longrightarrow>
       fst (fst (CreateReader cfg w)) = fst (fst (CreateReader (cfg\<lparr>MaxBytes := 0\<rparr>) w)) \<and>
       (sint (MinBytes cfg) \<le> 4194304 \<longrightarrow>
          MaxBytes (fst (fst (CreateReader cfg w))) = 4194304))"
proof -
  have c: "fst (fst (CreateReader cfg w)) = CreateReader_defaults cfg"
    using assms by (rule CreateReader_cfg)
  have c1: "fst (fst (CreateReader (cfg\<lparr>MinBytes := 0\<rparr>) w)) =
              CreateReader_defaults (cfg\<lparr>MinBytes := 0\<rparr>)"
    using assms by (intro CreateReader_cfg) simp_all
  have c2: "fst (fst (CreateReader (cfg\<lparr>MaxBytes := 0\<rparr>) w)) =
              CreateReader_defaults (cfg\<lparr>MaxBytes := 0\<rparr>)"
    using assms by (intro CreateReader_cfg) simp_all
  show ?thesis
    unfolding c c1 c2 by (simp add: CreateReader_defaults_eq Let_def)
qed

theorem CreateReader_writes_Config_witness:
  "Brokers cfg_negative \<noteq> [] \<and> Topic cfg_negative \<noteq> [] \<and> Handler cfg_negative \<noteq> None \<and>
   sint (MinBytes cfg_negative) < 0 \<and> sint (MaxBytes cfg_negative) < 0 \<and>
   sint (MinBytes cfg_negative) \<le> 4194304 \<and>
   fst (fst (CreateReader cfg_negative world_unreachable)) =
     cfg_negative\<lparr>MinBytes := 512, MaxBytes := 4194304, ReadBackoffMin := 100000000\<rparr> \<and>
   snd (fst (CreateReader cfg_negative world_unreachable)) =
     Returns (Inl ErrNonePartionFound)"
proof -
  have v: "Brokers cfg_negative \<noteq> []" "Topic cfg_negative \<noteq> []" "Handler cfg_negative \<noteq> None"
    by (simp_all add: cfg_negative_def example_config_def)
  have n: "sint (MinBytes cfg_negative) < 0" "sint (MaxBytes cfg_negative) < 0"
    "sint (MinBytes cfg_negative) \<le> 4194304" "sint (ReadBackoffMin cfg_negative) \<le> 100000000"
    by (simp_all add: cfg_negative_def example_config_def)
  have f: "snd (fst (CreateReader cfg_negative world_unreachable)) =
     Returns (Inl ErrNonePartionFound)"
    unfolding CreateReader_valid [OF v]
    by (simp add: cfg_negative_def example_config_def LookupPartitions_unreachable Let_def
        del: LookupPartitions.simps)
  from CreateReader_writes_Config [OF v, of world_unreachable] n
  have "fst (fst (CreateReader cfg_negative world_unreachable)) =
     cfg_negative\<lparr>MinBytes := 512, MaxBytes := 4194304, ReadBackoffMin := 100000000\<rparr>"
    by (simp add: Let_def)
  with v n f show ?thesis by simp
qed

text \<open>
  C8, as stated, fails: a minimum reconnect backoff of 50 ms is set and positive, the
  construction succeeds, and the supervisor's backoff is 100 ms, not the supplied value.
\<close>

theorem CreateReader_backoff_below_minimum_replaced:
  "0 < sint (ReadBackoffMin cfg_backoff_50ms) \<and>
   ReadBackoffMin cfg_backoff_50ms = 50000000 \<and>
   snd (fst (CreateReader cfg_backoff_50ms world_ABC)) \<noteq> Panics \<and>
   \<not> isl (returned (snd (fst (CreateReader cfg_backoff_50ms world_ABC)))) \<and>
   readBackoffMin (projr (returned (snd (fst (CreateReader cfg_backoff_50ms world_ABC))))) =
     100000000"
proof -
  have a: "Brokers cfg_backoff_50ms = [''A'', ''B'', ''C'']" "Topic cfg_backoff_50ms = ''orders''"
    "Handler cfg_backoff_50ms = Some (Callback 0)"
    by (simp_all add: cfg_backoff_50ms_def example_config_def)
  have ok: "example_accepts (worker_config cfg_backoff_50ms example_partition)"
    by (simp add: worker_config_accepted CreateReader_defaults_eq cfg_backoff_50ms_def
        example_config_def example_partition_def Millisecond_def)
  show ?thesis
    unfolding CreateReader_example_ABC(1) [OF a ok]
    by (simp add: CreateReader_defaults_eq cfg_backoff_50ms_def example_config_def Millisecond_def)
qed

text \<open>
  C8, amended. After a successful construction the supervisor's minimum reconnect backoff
  is the supplied one when that is greater than 100 ms, and 100 ms otherwise: the test of
  the source is \<open>cfg.ReadBackoffMin <= READBACKOFFMIN\<close>, so 100 ms is a floor, which an
  unset, a negative and a positive backoff of at most 100 ms all receive.
\<close>

theorem CreateReader_backoff_floor:
  "snd (fst (CreateReader cfg w)) = Returns (Inr r) \<Longrightarrow>
   readBackoffMin r =
     (if sint (ReadBackoffMin cfg) \<le> 100000000 then 100000000 else ReadBackoffMin cfg) \<and>
   100 * Millisecond = (100000000 :: Duration)"
  by (simp add: CreateReader_fields CreateReader_defaults_eq Millisecond_def)

theorem CreateReader_backoff_floor_witness:
  "snd (fst (CreateReader cfg_backoff_250ms world_ABC)) =
     Returns (Inr (projr (returned (snd (fst (CreateReader cfg_backoff_250ms world_ABC)))))) \<and>
   ReadBackoffMin cfg_backoff_250ms = 250000000 \<and>
   readBackoffMin (projr (returned (snd (fst (CreateReader cfg_backoff_250ms world_ABC))))) =
     250000000"
proof -
  have a: "Brokers cfg_backoff_250ms = [''A'', ''B'', ''C'']" "Topic cfg_backoff_250ms = ''orders''"
    "Handler cfg_backoff_250ms = Some (Callback 0)"
    by (simp_all add: cfg_backoff_250ms_def example_config_def)
  have ok: "example_accepts (worker_config cfg_backoff_250ms example_partition)"
    by (simp add: worker_config_accepted CreateReader_defaults_eq cfg_backoff_250ms_def
        example_config_def example_partition_def Millisecond_def)
  have r: "snd (fst (CreateReader cfg_backoff_250ms world_ABC)) =
     Returns (Inr (projr (returned (snd (fst (CreateReader cfg_backoff_250ms world_ABC))))))"
    unfolding CreateReader_example_ABC(1) [OF a ok] by simp
  have b: "ReadBackoffMin cfg_backoff_250ms = 250000000"
    by (simp add: cfg_backoff_250ms_def example_config_def Millisecond_def)
  from CreateReader_backoff_floor [OF r] b
  have "readBackoffMin (projr (returned (snd (fst (CreateReader cfg_backoff_250ms world_ABC))))) =
     250000000"
    by simp
  with r b show ?thesis by simp
qed

text \<open>
  C7. With \<open>MinBytes\<close> the largest \<open>int\<close> and \<open>MaxBytes\<close> 1, the assignment
  \<open>cfg.MaxBytes = cfg.MinBytes + 64\<close> wraps around. Where the lookup answers with no
  partition, no connection is opened, the construction succeeds, and the supervisor's
  \<open>maxBytes\<close> is negative, below its \<open>minBytes\<close>.
\<close>

theorem CreateReader_maxBytes_wraps_below_minBytes:
  "snd (fst (CreateReader cfg_min_huge world_no_partitions)) =
     Returns (Inr \<lparr>handleEvent = Some (Callback 0), topic = ''orders'',
                   brokers = [''A'', ''B'', ''C''],
                   minBytes = 9223372036854775807,
                   maxBytes = 9223372036854775807 + 64,
                   partitions = [],
                   readBackoffMin = 100000000,
                   readers = [], status = False, closing = False\<rparr>) \<and>
   sint (9223372036854775807 :: go_int) = 9223372036854775807 \<and>
   sint (9223372036854775807 + 64 :: go_int) = - 9223372036854775745 \<and>
   sint (maxBytes (projr (returned (snd (fst (CreateReader cfg_min_huge world_no_partitions)))))) <
   sint (minBytes (projr (returned (snd (fst (CreateReader cfg_min_huge world_no_partitions))))))"
proof -
  have a: "Brokers cfg_min_huge = [''A'', ''B'', ''C'']" "Topic cfg_min_huge = ''orders''"
    "Handler cfg_min_huge = Some (Callback 0)"
    by (simp_all add: cfg_min_huge_def example_config_def)
  have d: "MinBytes (CreateReader_defaults cfg_min_huge) = 9223372036854775807"
    "MaxBytes (CreateReader_defaults cfg_min_huge) = 9223372036854775807 + 64"
    "ReadBackoffMin (CreateReader_defaults cfg_min_huge) = 100000000"
    by (simp_all add: CreateReader_defaults_eq cfg_min_huge_def example_config_def)
  have n: "snd (fst (CreateReader cfg_min_huge world_no_partitions)) =
     Returns (Inr \<lparr>handleEvent = Some (Callback 0), topic = ''orders'',
                   brokers = [''A'', ''B'', ''C''],
                   minBytes = 9223372036854775807,
                   maxBytes = 9223372036854775807 + 64,
                   partitions = [],
                   readBackoffMin = 100000000,
                   readers = [], status = False, closing = False\<rparr>)"
    by (simp add: CreateReader_def a d Let_def lookupPartitions_eq world_no_partitions_def)
  show ?thesis
    unfolding n by simp
qed

text \<open>
  With the same configuration and a topic of one partition, the client of the example
  worlds rejects the negative \<open>MaxBytes\<close> and \<open>CreateReader\<close> panics.
\<close>

lemma CreateReader_min_huge_panics:
  "snd (fst (CreateReader cfg_min_huge world_ABC)) = Panics"
proof -
  have a: "Brokers cfg_min_huge = [''A'', ''B'', ''C'']" "Topic cfg_min_huge = ''orders''"
    "Handler cfg_min_huge = Some (Callback 0)"
    by (simp_all add: cfg_min_huge_def example_config_def)
  have "\<not> example_accepts (worker_config cfg_min_huge example_partition)"
    by (simp add: worker_config_accepted CreateReader_defaults_eq cfg_min_huge_def
        example_config_def)
  from CreateReader_example_ABC(2) [OF a this] show ?thesis .
qed

text \<open>
  Where \<open>MinBytes + 64\<close> does not overflow, the defaults leave \<open>MaxBytes\<close> at least
  \<open>MinBytes\<close>.
\<close>

lemma sint_add_64:
  fixes m :: "64 word"
  assumes "sint m \<le> 9223372036854775743"
  shows "sint (m + 64) = sint m + 64"
proof -
  have lo: "- (2 ^ 63) \<le> sint m"
    using sint_ge [of m] by simp
  have "sint (m + 64) = signed_take_bit 63 (sint m + sint (64 :: 64 word))"
    by (simp add: sint_word_ariths)
  also have "\<dots> = signed_take_bit 63 (sint m + 64)"
    by simp
  also have "\<dots> = sint m + 64"
    using lo assms by (intro signed_take_bit_int_eq_self) simp_all
  finally show ?thesis .
qed

lemma CreateReader_defaults_max_ge_min:
  assumes "sint (MinBytes cfg) \<le> 9223372036854775743"
  shows "sint (MinBytes (CreateReader_defaults cfg)) \<le> sint (MaxBytes (CreateReader_defaults cfg))"
proof -
  let ?mn = "if sint (MinBytes cfg) \<le> 0 then 512 else MinBytes cfg"
  have "sint ?mn \<le> 9223372036854775743"
    using assms by simp
  then have "sint (?mn + 64) = sint ?mn + 64"
    by (rule sint_add_64)
  then show ?thesis
    by (simp add: CreateReader_defaults_eq Let_def)
qed

text \<open>
  C6, as stated, fails: with a minimum reconnect backoff of 2 s the configuration passes
  the checks and the lookup answers with one partition, but the client rejects the
  worker's reader configuration (\<open>createReader\<close> sets no maximum backoff, and 2 s is above
  the client's default maximum) and \<open>kafka.NewReader\<close> panics: \<open>CreateReader\<close> returns
  neither a supervisor nor an error.
\<close>

theorem CreateReader_panics_on_rejected_configuration:
  "Brokers cfg_backoff_2s = [''A'', ''B'', ''C''] \<and> Topic cfg_backoff_2s = ''orders'' \<and>
   Handler cfg_backoff_2s = Some (Callback 0) \<and>
   fst (LookupPartitions (Brokers cfg_backoff_2s) (Topic cfg_backoff_2s) world_ABC) =
     Inr [example_partition] \<and>
   rc_ReadBackoffMin (worker_config cfg_backoff_2s example_partition) = 2000000000 \<and>
   \<not> accepts world_ABC (worker_config cfg_backoff_2s example_partition) \<and>
   snd (fst (CreateReader cfg_backoff_2s world_ABC)) = Panics"
proof -
  have a: "Brokers cfg_backoff_2s = [''A'', ''B'', ''C'']" "Topic cfg_backoff_2s = ''orders''"
    "Handler cfg_backoff_2s = Some (Callback 0)"
    by (simp_all add: cfg_backoff_2s_def example_config_def)
  have b: "rc_ReadBackoffMin (worker_config cfg_backoff_2s example_partition) = 2000000000"
    by (simp add: worker_config_def CreateReader_defaults_eq cfg_backoff_2s_def
        example_config_def Second_def Millisecond_def)
  have rej: "\<not> example_accepts (worker_config cfg_backoff_2s example_partition)"
    by (simp add: worker_config_accepted CreateReader_defaults_eq cfg_backoff_2s_def
        example_config_def Second_def Millisecond_def)
  have c: "accepts world_ABC = example_accepts"
    by (simp add: world_ABC_def)
  from a b rej c CreateReader_example_ABC(2) [OF a rej] show ?thesis
    by (simp add: LookupPartitions_ABC del: LookupPartitions.simps)
qed

text \<open>
  C6, amended. With a configuration that passes the checks: if the partition lookup
  fails, \<open>CreateReader\<close> returns that error and no supervisor, and has done nothing after
  the lookup but write a log line (no connection is opened). If the lookup succeeds, the
  client accepts the reader configuration of every worker and every seek of an initial
  connection succeeds, it returns a supervisor whose workers are one per partition, in
  the order of the partitions returned, each with its connection. If the client accepts
  the configurations up to a worker whose seek fails, it returns no supervisor and that
  worker's error. If the client rejects the configuration of a worker, the earlier ones
  having been created and seeked, \<open>CreateReader\<close> panics and returns nothing.
\<close>

theorem CreateReader_all_or_nothing:
  assumes "Brokers cfg \<noteq> []" and "Topic cfg \<noteq> []" and "Handler cfg \<noteq> None"
  shows
   "(LookupPartitions (Brokers cfg) (Topic cfg) w = (Inl e, w1) \<longrightarrow>
       CreateReader cfg w =
         ((CreateReader_defaults cfg, Returns (Inl e)), log_Error ''failed look partions'' w1)) \<and>
    (LookupPartitions (Brokers cfg) (Topic cfg) w = (Inr ps, w1) \<and>
     (\<forall>p\<in>set ps. accepts w (worker_config cfg p)) \<and>
     seek_replies w = replicate (length ps) None @- rest \<longrightarrow>
       (\<exists>r w2. CreateReader cfg w = ((CreateReader_defaults cfg, Returns (Inr r)), w2) \<and>
          partitions r = ps \<and>
          readers r = map (new_worker (ReaderFields.truncate r)) ps \<and>
          map partition (readers r) = ps \<and>
          events w2 = events w1 @ concat (map (open_events (ReaderFields.truncate r)) ps))) \<and>
    (LookupPartitions (Brokers cfg) (Topic cfg) w = (Inr ps, w1) \<and>
     (\<forall>p\<in>set (take (Suc k) ps). accepts w (worker_config cfg p)) \<and>
     seek_replies w = replicate k None @- Some err ## rest \<and> k < length ps \<longrightarrow>
       snd (fst (CreateReader cfg w)) = Returns (Inl (KafkaError err))) \<and>
    (LookupPartitions (Brokers cfg) (Topic cfg) w = (Inr ps, w1) \<and>
     (\<forall>p\<in>set (take k ps). accepts w (worker_config cfg p)) \<and>
     \<not> accepts w (worker_config cfg (ps ! k)) \<and>
     seek_replies w = replicate k None @- rest \<and> k < length ps \<longrightarrow>
       snd (fst (CreateReader cfg w)) = Panics)"
proof (intro conjI impI)
  assume "LookupPartitions (Brokers cfg) (Topic cfg) w = (Inl e, w1)"
  then show "CreateReader cfg w =
         ((CreateReader_defaults cfg, Returns (Inl e)), log_Error ''failed look partions'' w1)"
    unfolding CreateReader_valid [OF assms] by (simp add: Let_def)
next
  assume a: "LookupPartitions (Brokers cfg) (Topic cfg) w = (Inr ps, w1) \<and>
     (\<forall>p\<in>set ps. accepts w (worker_config cfg p)) \<and>
     seek_replies w = replicate (length ps) None @- rest"
  let ?base = "\<lparr>handleEvent = Handler cfg, topic = Topic cfg, brokers = Brokers cfg,
                    minBytes = MinBytes (CreateReader_defaults cfg),
                    maxBytes = MaxBytes (CreateReader_defaults cfg), partitions = ps,
                    readBackoffMin = ReadBackoffMin (CreateReader_defaults cfg),
                    readers = [], status = False, closing = False\<rparr>"
  let ?r = "?base\<lparr>readers := readers ?base @ map (new_worker (ReaderFields.truncate ?base)) ps\<rparr>"
  let ?w2 = "w1\<lparr>seek_replies := rest,
        events := events w1 @ concat (map (open_events (ReaderFields.truncate ?base)) ps)\<rparr>"
  from a have lk: "LookupPartitions (Brokers cfg) (Topic cfg) w = (Inr ps, w1)"
    by simp
  from a LookupPartitions_seek_replies [OF lk]
  have s: "seek_replies w1 = replicate (length ps) None @- rest"
    by simp
  from a LookupPartitions_accepts [OF lk]
  have acc: "\<forall>p\<in>set ps. accepts w1 (readerConfig (new_worker (ReaderFields.truncate ?base) p))"
    by (simp add: ReaderFields.truncate_def readerConfig_worker_config)
  have l: "CreateReader_loop ?base ps w1 = (Returns (Inr ?r), ?w2)"
    by (rule CreateReader_loop_all [OF s acc])
  have c: "CreateReader cfg w = ((CreateReader_defaults cfg, Returns (Inr ?r)), ?w2)"
    unfolding CreateReader_valid [OF assms] using lk l by (simp add: Let_def)
  have p: "map (partition \<circ> new_worker f) ps = ps" for f
    by (induction ps) (simp_all add: new_worker_def)
  have "partitions ?r = ps \<and>
          readers ?r = map (new_worker (ReaderFields.truncate ?r)) ps \<and>
          map partition (readers ?r) = ps \<and>
          events ?w2 = events w1 @ concat (map (open_events (ReaderFields.truncate ?r)) ps)"
    by (simp add: p ReaderFields.truncate_def)
  with c show "\<exists>r w2. CreateReader cfg w = ((CreateReader_defaults cfg, Returns (Inr r)), w2) \<and>
          partitions r = ps \<and>
          readers r = map (new_worker (ReaderFields.truncate r)) ps \<and>
          map partition (readers r) = ps \<and>
          events w2 = events w1 @ concat (map (open_events (ReaderFields.truncate r)) ps)"
    by blast
next
  assume a: "LookupPartitions (Brokers cfg) (Topic cfg) w = (Inr ps, w1) \<and>
     (\<forall>p\<in>set (take (Suc k) ps). accepts w (worker_config cfg p)) \<and>
     seek_replies w = replicate k None @- Some err ## rest \<and> k < length ps"
  let ?base = "\<lparr>handleEvent = Handler cfg, topic = Topic cfg, brokers = Brokers cfg,
                    minBytes = MinBytes (CreateReader_defaults cfg),
                    maxBytes = MaxBytes (CreateReader_defaults cfg), partitions = ps,
                    readBackoffMin = ReadBackoffMin (CreateReader_defaults cfg),
                    readers = [], status = False, closing = False\<rparr>"
  from a have lk: "LookupPartitions (Brokers cfg) (Topic cfg) w = (Inr ps, w1)"
    by simp
  from a LookupPartitions_seek_replies [OF lk]
  have s: "seek_replies w1 = replicate k None @- Some err ## rest"
    by simp
  from a have k: "k < length ps" by simp
  from a LookupPartitions_accepts [OF lk]
  have acc: "\<forall>p\<in>set (take (Suc k) ps).
               accepts w1 (readerConfig (new_worker (ReaderFields.truncate ?base) p))"
    by (simp add: ReaderFields.truncate_def readerConfig_worker_config)
  show "snd (fst (CreateReader cfg w)) = Returns (Inl (KafkaError err))"
    unfolding CreateReader_valid [OF assms]
    using lk CreateReader_loop_fail [OF s k acc]
    by (auto simp: Let_def split: prod.splits)
next
  assume a: "LookupPartitions (Brokers cfg) (Topic cfg) w = (Inr ps, w1) \<and>
     (\<forall>p\<in>set (take k ps). accepts w (worker_config cfg p)) \<and>
     \<not> accepts w (worker_config cfg (ps ! k)) \<and>
     seek_replies w = replicate k None @- rest \<and> k < length ps"
  let ?base = "\<lparr>handleEvent = Handler cfg, topic = Topic cfg, brokers = Brokers cfg,
                    minBytes = MinBytes (CreateReader_defaults cfg),
                    maxBytes = MaxBytes (CreateReader_defaults cfg), partitions = ps,
                    readBackoffMin = ReadBackoffMin (CreateReader_defaults cfg),
                    readers = [], status = False, closing = False\<rparr>"
  from a have lk: "LookupPartitions (Brokers cfg) (Topic cfg) w = (Inr ps, w1)"
    by simp
  from a LookupPartitions_seek_replies [OF lk]
  have s: "seek_replies w1 = replicate k None @- rest"
    by simp
  from a have k: "k < length ps" by simp
  from a LookupPartitions_accepts [OF lk]
  have acc: "\<forall>p\<in>set (take k ps).
               accepts w1 (readerConfig (new_worker (ReaderFields.truncate ?base) p))"
    by (simp add: ReaderFields.truncate_def readerConfig_worker_config)
  from a LookupPartitions_accepts [OF lk]
  have rej: "\<not> accepts w1 (readerConfig (new_worker (ReaderFields.truncate ?base) (ps ! k)))"
    by (simp add: ReaderFields.truncate_def readerConfig_worker_config)
  show "snd (fst (CreateReader cfg w)) = Panics"
    unfolding CreateReader_valid [OF assms]
    using lk CreateReader_loop_panics [OF s k acc rej]
    by (auto simp: Let_def split: prod.splits)
qed

theorem CreateReader_all_or_nothing_witness:
  "CreateReader example_config world_unreachable =
     ((CreateReader_defaults example_config, Returns (Inl ErrNonePartionFound)),
      world_unreachable\<lparr>
        events := [Lookup 3000000000 ''tcp'' ''A'' ''orders'', LogError ''lookupPartions failed'',
                   Lookup 3000000000 ''tcp'' ''B'' ''orders'', LogError ''lookupPartions failed'',
                   Lookup 3000000000 ''tcp'' ''C'' ''orders'', LogError ''lookupPartions failed'',
                   LogError ''failed look partions'']\<rparr>) \<and>
   accepts world_ABC (worker_config example_config example_partition) \<and>
   snd (fst (CreateReader example_config world_ABC)) \<noteq> Panics \<and>
   map partition
     (readers (projr (returned (snd (fst (CreateReader example_config world_ABC)))))) =
     [example_partition] \<and>
   snd (fst (CreateReader example_config world_seek_fails)) =
     Returns (Inl (KafkaError ''reader closed'')) \<and>
   \<not> accepts world_ABC (worker_config cfg_backoff_2s example_partition) \<and>
   snd (fst (CreateReader cfg_backoff_2s world_ABC)) = Panics"
proof -
  note v = example_config_valid
  have b: "Brokers example_config = [''A'', ''B'', ''C'']" "Topic example_config = ''orders''"
    by (simp_all add: example_config_def)
  note t = CreateReader_all_or_nothing [OF v]
  from t [where w = world_unreachable] LookupPartitions_unreachable
  have 1: "CreateReader example_config world_unreachable =
     ((CreateReader_defaults example_config, Returns (Inl ErrNonePartionFound)),
      world_unreachable\<lparr>
        events := [Lookup 3000000000 ''tcp'' ''A'' ''orders'', LogError ''lookupPartions failed'',
                   Lookup 3000000000 ''tcp'' ''B'' ''orders'', LogError ''lookupPartions failed'',
                   Lookup 3000000000 ''tcp'' ''C'' ''orders'', LogError ''lookupPartions failed'',
                   LogError ''failed look partions'']\<rparr>)"
    by (simp add: b log_Error_def emit_def del: LookupPartitions.simps)
  have ok: "example_accepts (worker_config example_config p)"
    if "ID p = 0 \<or> ID p = 1" for p
    using that
    by (auto simp: worker_config_accepted CreateReader_defaults_eq example_config_def)
  have a2: "\<forall>p\<in>set [example_partition].
              accepts world_ABC (worker_config example_config p)"
    by (simp add: world_ABC_def ok example_partition_def)
  have s2: "seek_replies world_ABC = replicate (length [example_partition]) None @- sconst None"
    by (simp add: world_ABC_def) (subst siterate.ctr, simp)
  have l2: "LookupPartitions (Brokers example_config) (Topic example_config) world_ABC =
     (Inr [example_partition],
      world_ABC\<lparr>lookup_replies := sconst (Inl ''unused''),
        events := [Lookup 3000000000 ''tcp'' ''A'' ''orders'', LogError ''lookupPartions failed'',
                   Lookup 3000000000 ''tcp'' ''B'' ''orders'']\<rparr>)"
    by (simp only: b LookupPartitions_ABC)
  from t [THEN conjunct2, THEN conjunct1, THEN mp, OF conjI [OF l2 conjI [OF a2 s2]]]
  obtain r w2 where "CreateReader example_config world_ABC =
      ((CreateReader_defaults example_config, Returns (Inr r)), w2)"
    and "map partition (readers r) = [example_partition]"
    by (elim exE conjE)
  then have 2: "snd (fst (CreateReader example_config world_ABC)) \<noteq> Panics \<and>
     map partition
       (readers (projr (returned (snd (fst (CreateReader example_config world_ABC)))))) =
     [example_partition]"
    by simp
  have l3: "LookupPartitions (Brokers example_config) (Topic example_config) world_seek_fails =
     (Inr [\<lparr>ID = 0, Leader = ''A''\<rparr>, \<lparr>ID = 1, Leader = ''B''\<rparr>],
      world_seek_fails\<lparr>events := [Lookup 3000000000 ''tcp'' ''A'' ''orders'']\<rparr>)"
    by (simp only: b LookupPartitions_seek_fails)
  have a3: "\<forall>p\<in>set (take (Suc 1) [\<lparr>ID = 0, Leader = ''A''\<rparr>, \<lparr>ID = 1, Leader = ''B''\<rparr>]).
              accepts world_seek_fails (worker_config example_config p)"
    by (simp add: world_seek_fails_def ok)
  have s3: "seek_replies world_seek_fails =
              replicate 1 None @- Some ''reader closed'' ## sconst None \<and>
            1 < length [\<lparr>ID = 0, Leader = ''A''\<rparr>, \<lparr>ID = 1, Leader = ''B''\<rparr>]"
    by (simp add: world_seek_fails_def)
  from t [THEN conjunct2, THEN conjunct2, THEN conjunct1, THEN mp,
          OF conjI [OF l3 conjI [OF a3 s3]]]
  have 3: "snd (fst (CreateReader example_config world_seek_fails)) =
             Returns (Inl (KafkaError ''reader closed''))" .
  have v4: "Brokers cfg_backoff_2s \<noteq> []" "Topic cfg_backoff_2s \<noteq> []"
    "Handler cfg_backoff_2s \<noteq> None"
    by (simp_all add: cfg_backoff_2s_def example_config_def)
  have l4: "LookupPartitions (Brokers cfg_backoff_2s) (Topic cfg_backoff_2s) world_ABC =
     (Inr [example_partition],
      world_ABC\<lparr>lookup_replies := sconst (Inl ''unused''),
        events := [Lookup 3000000000 ''tcp'' ''A'' ''orders'', LogError ''lookupPartions failed'',
                   Lookup 3000000000 ''tcp'' ''B'' ''orders'']\<rparr>)"
    using LookupPartitions_ABC by (simp add: cfg_backoff_2s_def example_config_def)
  have rej: "\<not> accepts world_ABC (worker_config cfg_backoff_2s example_partition)"
    by (simp add: world_ABC_def worker_config_accepted CreateReader_defaults_eq
        cfg_backoff_2s_def example_config_def Second_def Millisecond_def)
  have a4: "(\<forall>p\<in>set (take 0 [example_partition]).
               accepts world_ABC (worker_config cfg_backoff_2s p)) \<and>
            \<not> accepts world_ABC (worker_config cfg_backoff_2s ([example_partition] ! 0)) \<and>
            seek_replies world_ABC = replicate 0 None @- sconst None \<and>
            0 < length [example_partition]"
    using rej by (simp add: world_ABC_def)
  from CreateReader_all_or_nothing
         [OF v4, THEN conjunct2, THEN conjunct2, THEN conjunct2, THEN mp, OF conjI [OF l4 a4]]
  have 4: "snd (fst (CreateReader cfg_backoff_2s world_ABC)) = Panics" .
  from a2 have acc: "accepts world_ABC (worker_config example_config example_partition)"
    by simp
  from 1 acc 2 3 rej 4 show ?thesis by blast
qed

theorem CreateReader_configuration_errors_witness:
  "snd (fst (CreateReader (example_config\<lparr>Brokers := [], Topic := [], Handler := None\<rparr>)
               world_ABC)) = Returns (Inl ErrNoBrokers) \<and>
   snd (fst (CreateReader (example_config\<lparr>Topic := [], Handler := None\<rparr>) world_ABC)) =
     Returns (Inl ErrNoTopic) \<and>
   snd (fst (CreateReader (example_config\<lparr>Handler := None\<rparr>) world_ABC)) =
     Returns (Inl ErrNoHandler) \<and>
   snd (fst (CreateReader (example_config\<lparr>MinBytes := - 1, MaxBytes := - 1, Name := []\<rparr>)
               world_unreachable)) \<noteq> Returns (Inl ErrNoBrokers) \<and>
   \<not> config_error ErrNonePartionFound"
  using CreateReader_configuration_errors
          [of "example_config\<lparr>Brokers := [], Topic := [], Handler := None\<rparr>" world_ABC]
        CreateReader_configuration_errors
          [of "example_config\<lparr>Topic := [], Handler := None\<rparr>" world_ABC]
        CreateReader_configuration_errors
          [of "example_config\<lparr>Handler := None\<rparr>" world_ABC]
        CreateReader_configuration_errors
          [of "example_config\<lparr>MinBytes := - 1, MaxBytes := - 1, Name := []\<rparr>" world_unreachable]
  by (simp add: example_config_def)

end
